theory Spec2Isabelle
  imports Complex_Main "HOL-Library.Sublist" "HOL-Library.AList"
begin

section \<open>JavaScript values\<close>

text \<open>
  The server is TypeScript running on a JavaScript engine. Objects such as \<open>SongInfo\<close> are
  built with object literals and the spread operator, read with \<open>.\<close> and \<open>?.\<close>, and tested
  with \<open>||\<close>, \<open>!\<close> and \<open>if (x)\<close>; all of these depend on which keys an object has and on
  the truthiness of a value, so values are modelled as they are at run time. An object is
  the list of its own properties in insertion order. Strings are lists of 8-bit
  characters (Latin-1 text); numbers are exact rationals plus \<open>NaN\<close>.
\<close>

datatype jsval =
    JUndefined
  | JNull
  | JBool bool
  | JNum rat
  | JNaN
  | JStr string
  | JArr "jsval list"
  | JObj "(string \<times> jsval) list"

text \<open>\<open>ToBoolean\<close>: what \<open>if (v)\<close>, \<open>!v\<close> and \<open>v || w\<close> test.\<close>

fun truthy :: "jsval \<Rightarrow> bool" where
  "truthy JUndefined = False"
| "truthy JNull = False"
| "truthy (JBool b) = b"
| "truthy (JNum r) = (r \<noteq> 0)"
| "truthy JNaN = False"
| "truthy (JStr s) = (s \<noteq> [])"
| "truthy (JArr xs) = True"
| "truthy (JObj kvs) = True"

text \<open>\<open>a || b\<close>.\<close>

definition js_or :: "jsval \<Rightarrow> jsval \<Rightarrow> jsval" where
  "js_or a b = (if truthy a then a else b)"

text \<open>
  \<open>o.k\<close> on an object: the value of the own property, \<open>undefined\<close> when the key is absent.
  Where a key is written twice, the later value counts, as in an object literal.
  (None of the keys read by the server is inherited from a prototype.)
\<close>

definition own_prop :: "(string \<times> jsval) list \<Rightarrow> string \<Rightarrow> jsval" where
  "own_prop kvs k = (case map_of (rev kvs) k of None \<Rightarrow> JUndefined | Some v \<Rightarrow> v)"

text \<open>
  \<open>v.k\<close> on any value: reading a property of \<open>null\<close> or \<open>undefined\<close> throws a
  \<open>TypeError\<close> (the result \<open>None\<close>); on the other primitives and on arrays the keys read
  here do not exist.
\<close>

fun get_prop :: "jsval \<Rightarrow> string \<Rightarrow> jsval option" where
  "get_prop JUndefined k = None"
| "get_prop JNull k = None"
| "get_prop (JObj kvs) k = Some (own_prop kvs k)"
| "get_prop v k = Some JUndefined"

text \<open>\<open>v?.k\<close>: \<open>undefined\<close> when \<open>v\<close> is \<open>null\<close> or \<open>undefined\<close>.\<close>

definition opt_prop :: "jsval \<Rightarrow> string \<Rightarrow> jsval" where
  "opt_prop v k = (case get_prop v k of None \<Rightarrow> JUndefined | Some w \<Rightarrow> w)"

text \<open>
  \<open>{ ...a, ...b }\<close>: the own properties of \<open>a\<close>, then those of \<open>b\<close>; a key of \<open>b\<close>
  overwrites the same key of \<open>a\<close>, also when its value is \<open>undefined\<close>. Spreading \<open>null\<close>
  or a primitive adds nothing.
\<close>

definition own_props :: "jsval \<Rightarrow> (string \<times> jsval) list" where
  "own_props v = (case v of JObj kvs \<Rightarrow> kvs | _ \<Rightarrow> [])"

definition assign_props :: "(string \<times> jsval) list \<Rightarrow> (string \<times> jsval) list \<Rightarrow> (string \<times> jsval) list" where
  "assign_props target src = foldl (\<lambda>acc kv. AList.update (fst kv) (snd kv) acc) target src"

definition spread2 :: "jsval \<Rightarrow> jsval \<Rightarrow> (string \<times> jsval) list" where
  "spread2 a b = assign_props (assign_props [] (own_props a)) (own_props b)"

section \<open>String built-ins\<close>

text \<open>
  \<open>WhiteSpace\<close> and \<open>LineTerminator\<close> of the language, within the 8-bit range: what
  \<open>trim\<close>, \<open>parseInt\<close> and the regular expression class \<open>\s\<close> skip. A line terminator
  is what \<open>.\<close> does not match.
\<close>

definition isSpace :: "char \<Rightarrow> bool" where
  "isSpace c = (c \<in> {CHR 0x09, CHR 0x0A, CHR 0x0B, CHR 0x0C, CHR 0x0D, CHR 0x20, CHR 0xA0})"

definition isLineTerminator :: "char \<Rightarrow> bool" where
  "isLineTerminator c = (c = CHR 0x0A \<or> c = CHR 0x0D)"

definition isDigit :: "char \<Rightarrow> bool" where
  "isDigit c = (48 \<le> (of_char c :: nat) \<and> (of_char c :: nat) \<le> 57)"

text \<open>\<open>s.trim()\<close>.\<close>

definition trim :: "string \<Rightarrow> string" where
  "trim s = rev (dropWhile isSpace (rev (dropWhile isSpace s)))"

text \<open>\<open>s.includes(sub)\<close>.\<close>

fun str_includes :: "string \<Rightarrow> string \<Rightarrow> bool" where
  "str_includes [] sub = (sub = [])"
| "str_includes (c # cs) sub = (prefix sub (c # cs) \<or> str_includes cs sub)"

text \<open>
  \<open>s.split(sep)\<close> for a separator that is not empty: the pieces between the occurrences
  of \<open>sep\<close>, found from left to right without overlap. \<open>cur\<close> holds the piece being read,
  reversed.
\<close>

fun split_from :: "string \<Rightarrow> string \<Rightarrow> nat \<Rightarrow> string \<Rightarrow> string list" where
  "split_from sep cur skip [] = [rev cur]"
| "split_from sep cur (Suc n) (c # cs) = split_from sep cur n cs"
| "split_from sep cur 0 (c # cs) =
     (if prefix sep (c # cs) then rev cur # split_from sep [] (length sep - 1) cs
      else split_from sep (c # cur) 0 cs)"

definition split :: "string \<Rightarrow> string \<Rightarrow> string list" where
  "split s sep = split_from sep [] 0 s"

text \<open>\<open>parts.join(sep)\<close> on an array of strings.\<close>

fun join :: "string list \<Rightarrow> string \<Rightarrow> string" where
  "join [] sep = []"
| "join [p] sep = p"
| "join (p # q # ps) sep = p @ sep @ join (q # ps) sep"

text \<open>\<open>parts.slice(1)\<close>.\<close>

definition slice1 :: "'a list \<Rightarrow> 'a list" where
  "slice1 parts = drop 1 parts"

text \<open>\<open>s.substring(0, n)\<close>.\<close>

definition substring0 :: "string \<Rightarrow> nat \<Rightarrow> string" where
  "substring0 s n = take n s"

text \<open>
  \<open>parseInt(s)\<close> with no radix: leading white space and one sign are skipped, a \<open>0x\<close>
  prefix selects radix 16, and the longest run of digits is read; no digit gives \<open>NaN\<close>.
  (The result is exact; the rounding of integers beyond \<open>2^53\<close> is not modelled.)
\<close>

definition digit_value :: "nat \<Rightarrow> char \<Rightarrow> nat option" where
  "digit_value radix c =
     (let n = (of_char c :: nat);
          v = (if 48 \<le> n \<and> n \<le> 57 then Some (n - 48)
               else if 97 \<le> n \<and> n \<le> 122 then Some (n - 87)
               else if 65 \<le> n \<and> n \<le> 90 then Some (n - 55)
               else None)
      in case v of None \<Rightarrow> None | Some d \<Rightarrow> if d < radix then Some d else None)"

fun read_digits :: "nat \<Rightarrow> string \<Rightarrow> nat list" where
  "read_digits radix [] = []"
| "read_digits radix (c # cs) =
     (case digit_value radix c of None \<Rightarrow> [] | Some d \<Rightarrow> d # read_digits radix cs)"

definition parseInt :: "string \<Rightarrow> jsval" where
  "parseInt s =
     (let s1 = dropWhile isSpace s;
          negative = (s1 \<noteq> [] \<and> hd s1 = CHR ''-'');
          s2 = (if s1 \<noteq> [] \<and> (hd s1 = CHR ''-'' \<or> hd s1 = CHR ''+'') then tl s1 else s1);
          hex = (prefix ''0x'' s2 \<or> prefix ''0X'' s2);
          radix = (if hex then 16 else 10);
          s3 = (if hex then drop 2 s2 else s2);
          ds = read_digits radix s3;
          n = foldl (\<lambda>acc d. acc * radix + d) 0 ds
      in if ds = [] then JNaN
         else JNum (if negative then - of_nat n else of_nat n))"

section \<open>Regular expressions\<close>

text \<open>
  The regular expressions of the source use literals, the classes \<open>.\<close>, \<open>\s\<close> and \<open>\d\<close>
  under the quantifiers \<open>+\<close>, \<open>+?\<close>, \<open>*\<close> and \<open>{4}\<close>, capture groups, and the anchors
  \<open>^\<close> and \<open>$\<close>. The matcher is the backtracking one of the language: a quantifier tries
  its repetition counts in order (a greedy one the largest first, a lazy one the smallest
  first) and the first count for which the rest of the pattern matches is taken.
\<close>

datatype cclass = Dot | Space | Digit

fun in_class :: "cclass \<Rightarrow> char \<Rightarrow> bool" where
  "in_class Dot c = (\<not> isLineTerminator c)"
| "in_class Space c = isSpace c"
| "in_class Digit c = isDigit c"

datatype regex =
    Lit string
  | Rep cclass nat "nat option" bool
  | Group nat regex
  | Seq regex regex
  | Bol
  | Eol

type_synonym captures = "(nat \<times> string) list"

text \<open>The literals of the source are ASCII; under the flag \<open>i\<close> they match either case.\<close>

definition upper :: "char \<Rightarrow> char" where
  "upper c = (let n = (of_char c :: nat) in if 97 \<le> n \<and> n \<le> 122 then char_of (n - 32) else c)"

definition lit_matches :: "bool \<Rightarrow> string \<Rightarrow> string \<Rightarrow> bool" where
  "lit_matches ignoreCase lit text =
     (if ignoreCase then map upper lit = map upper text else lit = text)"

fun first_match :: "(nat \<Rightarrow> 'a option) \<Rightarrow> nat list \<Rightarrow> 'a option" where
  "first_match f [] = None"
| "first_match f (n # ns) = (case f n of Some r \<Rightarrow> Some r | None \<Rightarrow> first_match f ns)"

text \<open>
  \<open>rmatch r ignoreCase s k i caps\<close>: match \<open>r\<close> in \<open>s\<close> from position \<open>i\<close>, then continue
  with \<open>k\<close> at the position reached; \<open>None\<close> when every alternative fails.
\<close>

primrec rmatch ::
  "regex \<Rightarrow> bool \<Rightarrow> string \<Rightarrow> (nat \<Rightarrow> captures \<Rightarrow> (nat \<times> captures) option)
     \<Rightarrow> nat \<Rightarrow> captures \<Rightarrow> (nat \<times> captures) option" where
  "rmatch (Lit lit) ignoreCase s k i caps =
     (if lit_matches ignoreCase lit (take (length lit) (drop i s))
      then k (i + length lit) caps else None)"
| "rmatch (Rep cls lo hi greedy) ignoreCase s k i caps =
     (let avail = length (takeWhile (in_class cls) (drop i s));
          top = (case hi of None \<Rightarrow> avail | Some h \<Rightarrow> min h avail);
          counts = [lo ..< Suc top]
      in first_match (\<lambda>n. k (i + n) caps) (if greedy then rev counts else counts))"
| "rmatch (Group g r) ignoreCase s k i caps =
     rmatch r ignoreCase s (\<lambda>j caps'. k j ((g, take (j - i) (drop i s)) # caps')) i caps"
| "rmatch (Seq r1 r2) ignoreCase s k i caps =
     rmatch r1 ignoreCase s (\<lambda>j caps'. rmatch r2 ignoreCase s k j caps') i caps"
| "rmatch Bol ignoreCase s k i caps = (if i = 0 then k i caps else None)"
| "rmatch Eol ignoreCase s k i caps = (if i = length s then k i caps else None)"

definition match_at :: "regex \<Rightarrow> bool \<Rightarrow> string \<Rightarrow> nat \<Rightarrow> (nat \<times> captures) option" where
  "match_at r ignoreCase s i = rmatch r ignoreCase s (\<lambda>j caps. Some (j, caps)) i []"

text \<open>
  \<open>s.match(re)\<close> for a pattern without the flag \<open>g\<close>: the leftmost match, as the list of
  the whole match (index 0) and the groups.
\<close>

definition str_match :: "regex \<Rightarrow> bool \<Rightarrow> string \<Rightarrow> captures option" where
  "str_match r ignoreCase s =
     first_match
       (\<lambda>i. case match_at r ignoreCase s i of
               None \<Rightarrow> None
             | Some (j, caps) \<Rightarrow> Some (caps @ [(0, take (j - i) (drop i s))]))
       [0 ..< Suc (length s)]"

definition capture :: "captures \<Rightarrow> nat \<Rightarrow> string" where
  "capture caps g = (case map_of caps g of None \<Rightarrow> [] | Some t \<Rightarrow> t)"

text \<open>
  \<open>s.replace(re, '')\<close> for a pattern with the flag \<open>g\<close>: every match, found from left to
  right without overlap, is removed. \<open>resume\<close> is the end of the last match.
\<close>

fun remove_matches :: "regex \<Rightarrow> bool \<Rightarrow> string \<Rightarrow> nat \<Rightarrow> nat list \<Rightarrow> string" where
  "remove_matches r ignoreCase s resume [] = []"
| "remove_matches r ignoreCase s resume (i # positions) =
     (if i < resume then remove_matches r ignoreCase s resume positions
      else case match_at r ignoreCase s i of
             None \<Rightarrow> s ! i # remove_matches r ignoreCase s resume positions
           | Some (j, caps) \<Rightarrow>
               if i < j then remove_matches r ignoreCase s j positions
               else s ! i # remove_matches r ignoreCase s resume positions)"

definition replace_all_empty :: "regex \<Rightarrow> bool \<Rightarrow> string \<Rightarrow> string" where
  "replace_all_empty r ignoreCase s = remove_matches r ignoreCase s 0 [0 ..< length s]"

fun seqs :: "regex list \<Rightarrow> regex" where
  "seqs [] = Lit []"
| "seqs [r] = r"
| "seqs (r # rs) = Seq r (seqs rs)"

section \<open>Song resolution (server/lyricsApi.ts)\<close>

subsection \<open>The query parser\<close>

record ParsedQuery =
  pq_artist :: "string option"
  pq_title :: "string option"

text \<open>\<open>/^(.+?)\s+by\s+(.+)$/i\<close> and \<open>/^(.+?)\s*\((.+?)\)$/\<close>.\<close>

definition by_pattern :: regex where
  "by_pattern = seqs [Bol, Group 1 (Rep Dot 1 None False), Rep Space 1 None True, Lit ''by'',
                      Rep Space 1 None True, Group 2 (Rep Dot 1 None True), Eol]"

definition parentheses_pattern :: regex where
  "parentheses_pattern = seqs [Bol, Group 1 (Rep Dot 1 None False), Rep Space 0 None True,
                               Lit ''('', Group 2 (Rep Dot 1 None False), Lit '')'', Eol]"

definition parseQuery :: "string \<Rightarrow> ParsedQuery" where
  "parseQuery query =
     (let trimmed = trim query in
      if str_includes trimmed '' - '' \<and> 2 \<le> length (split trimmed '' - '') then
        (let parts = split trimmed '' - '' in
         \<lparr> pq_artist = Some (trim (hd parts)),
           pq_title = Some (trim (join (slice1 parts) '' - '')) \<rparr>)
      else if str_includes trimmed '': '' \<and> 2 \<le> length (split trimmed '': '') then
        (let parts = split trimmed '': '' in
         \<lparr> pq_artist = Some (trim (hd parts)),
           pq_title = Some (trim (join (slice1 parts) '': '')) \<rparr>)
      else
        (case str_match by_pattern True trimmed of
           Some byMatch \<Rightarrow>
             \<lparr> pq_artist = Some (trim (capture byMatch 2)),
               pq_title = Some (trim (capture byMatch 1)) \<rparr>
         | None \<Rightarrow>
             (case str_match parentheses_pattern False trimmed of
                Some parenthesesMatch \<Rightarrow>
                  \<lparr> pq_artist = Some (trim (capture parenthesesMatch 2)),
                    pq_title = Some (trim (capture parenthesesMatch 1)) \<rparr>
              | None \<Rightarrow> \<lparr> pq_artist = None, pq_title = Some trimmed \<rparr>)))"

text \<open>\<open>!x\<close> for \<open>x: string | null\<close>: true for \<open>null\<close> and for the empty string.\<close>

definition falsy_str :: "string option \<Rightarrow> bool" where
  "falsy_str x = (case x of None \<Rightarrow> True | Some s \<Rightarrow> s = [])"

subsection \<open>The external services\<close>

text \<open>
  What the services answer is not fixed by the program: it is the environment of a
  request. A \<open>fetch\<close> either throws (also when reading the body throws), or answers with a
  status that is not 2xx, or answers with a body. Bodies are given with the shape the
  source's interfaces declare (\<open>GeniusSearchResult\<close>, \<open>LastFmTrackInfo\<close>) or, for the
  untyped ones, with the fields the source reads, every field a string where present.
\<close>

datatype 'a fetched = Rejected | NotOk | Ok 'a

record genius_hit =
  hit_title :: string
  hit_artist :: string
  hit_release_date_for_display :: "string option"
  hit_url :: string

record lastfm_attr =
  attr_year :: "string option"

record lastfm_album =
  album_attr :: "lastfm_attr option"

record lastfm_track =
  track_album :: "lastfm_album option"
  track_toptags :: "string list option"

record mb_recording =
  rec_title :: "string option"
  rec_artist_credit :: "string option list option"
  rec_releases :: "string option list option"
  rec_tags :: "string option list option"

text \<open>
  A chat completion either fails (network, authentication, rate limit, no choice in the
  answer) or carries \<open>choices[0].message.content\<close>, a string or \<open>null\<close>.
\<close>

datatype completion = ApiError string | Content "string option"

record env =
  GENIUS_ACCESS_TOKEN :: "string option"
  LASTFM_API_KEY :: "string option"
  genius_search :: "string \<Rightarrow> genius_hit list fetched"
  lastfm_getInfo :: "jsval \<Rightarrow> jsval \<Rightarrow> lastfm_track option fetched"
  lyricsovh_get :: "string \<Rightarrow> string \<Rightarrow> string option fetched"
  musicbrainz_query :: "jsval \<Rightarrow> jsval \<Rightarrow> mb_recording list option fetched"
  openai_json :: "jsval \<Rightarrow> jsval \<Rightarrow> jsval \<Rightarrow> completion"
  openai_text :: "jsval \<Rightarrow> jsval \<Rightarrow> jsval \<Rightarrow> jsval \<Rightarrow> completion"
  number_toString :: "rat \<Rightarrow> string"

subsection \<open>The adapters and the resolver\<close>

text \<open>A value that is a string when present: \<open>undefined\<close> otherwise.\<close>

definition js_str :: "string option \<Rightarrow> jsval" where
  "js_str x = (case x of None \<Rightarrow> JUndefined | Some s \<Rightarrow> JStr s)"

definition searchLyricsOvh :: "env \<Rightarrow> string \<Rightarrow> jsval" where
  "searchLyricsOvh env query =
     (let pq = parseQuery query in
      if falsy_str (pq_artist pq) \<or> falsy_str (pq_title pq) then JNull
      else
        (case lyricsovh_get env (the (pq_artist pq)) (the (pq_title pq)) of
           Rejected \<Rightarrow> JNull
         | NotOk \<Rightarrow> JNull
         | Ok lyrics \<Rightarrow>
             if truthy (js_str lyrics)
             then JObj [(''title'', JStr (the (pq_title pq))),
                        (''artist'', JStr (the (pq_artist pq))),
                        (''lyrics'', js_str lyrics)]
             else JNull))"

definition extractSongInfo :: "string \<Rightarrow> jsval" where
  "extractSongInfo query =
     (let pq = parseQuery query in
      if falsy_str (pq_artist pq) \<or> falsy_str (pq_title pq)
      then JObj [(''title'', JStr (trim query)), (''artist'', JStr ''Unknown Artist'')]
      else JObj [(''title'', JStr (the (pq_title pq))), (''artist'', JStr (the (pq_artist pq)))])"

definition getGeniusLyrics :: "string \<Rightarrow> jsval" where
  "getGeniusLyrics songUrl =
     JStr ''High-quality lyrics from Genius (lyrics extraction would require additional implementation)''"

text \<open>\<open>/\d{4}/\<close>.\<close>

definition four_digits :: regex where
  "four_digits = Rep Digit 4 (Some 4) True"

definition searchGenius :: "env \<Rightarrow> string \<Rightarrow> jsval" where
  "searchGenius env query =
     (if falsy_str (GENIUS_ACCESS_TOKEN env) then JNull
      else
        (let pq = parseQuery query;
             searchQuery = (if \<not> falsy_str (pq_artist pq) \<and> \<not> falsy_str (pq_title pq)
                            then the (pq_artist pq) @ '' '' @ the (pq_title pq) else query)
         in case genius_search env searchQuery of
              Rejected \<Rightarrow> JNull
            | NotOk \<Rightarrow> JNull
            | Ok hits \<Rightarrow>
                (case hits of
                   [] \<Rightarrow> JNull
                 | song # others \<Rightarrow>
                     (let year =
                            (if truthy (js_str (hit_release_date_for_display song)) then
                               (case str_match four_digits False
                                       (the (hit_release_date_for_display song)) of
                                  None \<Rightarrow> JUndefined
                                | Some yearMatch \<Rightarrow> parseInt (capture yearMatch 0))
                             else JUndefined);
                          lyrics = getGeniusLyrics (hit_url song)
                      in JObj [(''title'', JStr (hit_title song)),
                               (''artist'', JStr (hit_artist song)),
                               (''year'', year),
                               (''lyrics'', lyrics)]))))"

definition getLastFmTrackInfo :: "env \<Rightarrow> jsval \<Rightarrow> jsval \<Rightarrow> jsval" where
  "getLastFmTrackInfo env title artist =
     (if falsy_str (LASTFM_API_KEY env) then JNull
      else
        (case lastfm_getInfo env artist title of
           Rejected \<Rightarrow> JNull
         | NotOk \<Rightarrow> JNull
         | Ok None \<Rightarrow> JNull
         | Ok (Some track) \<Rightarrow>
             (let genre = (case track_toptags track of
                             Some (tag # tags) \<Rightarrow> JStr tag
                           | _ \<Rightarrow> JUndefined);
                  albumYear = (case track_album track of
                                 None \<Rightarrow> None
                               | Some album \<Rightarrow>
                                   (case album_attr album of
                                      None \<Rightarrow> None
                                    | Some attr \<Rightarrow> attr_year attr));
                  year = (if truthy (js_str albumYear) then parseInt (the albumYear)
                          else JUndefined)
              in JObj [(''genre'', genre), (''year'', year)])))"

text \<open>
  \<open>searchSong\<close>. Each adapter catches its own errors, so the outer \<open>catch\<close> is never
  reached; \<open>geniusResult.genre\<close> reads a key that \<open>searchGenius\<close> never sets.
\<close>

definition searchSong :: "env \<Rightarrow> string \<Rightarrow> jsval" where
  "searchSong env query =
     (let geniusResult = searchGenius env query in
      if truthy geniusResult then
        (let g = own_props geniusResult;
             lastFmData = getLastFmTrackInfo env (own_prop g ''title'') (own_prop g ''artist'')
         in JObj [(''title'', own_prop g ''title''),
                  (''artist'', own_prop g ''artist''),
                  (''genre'', js_or (opt_prop lastFmData ''genre'') (own_prop g ''genre'')),
                  (''year'', js_or (opt_prop lastFmData ''year'') (own_prop g ''year'')),
                  (''lyrics'', js_or (own_prop g ''lyrics'') (JStr ''Lyrics not found''))])
      else
        (let lyricsOvhResult = searchLyricsOvh env query in
         if truthy lyricsOvhResult then
           (let l = own_props lyricsOvhResult;
                lastFmData = getLastFmTrackInfo env (own_prop l ''title'') (own_prop l ''artist'')
            in JObj (spread2 lyricsOvhResult
                 (JObj [(''genre'', js_or (opt_prop lastFmData ''genre'') (own_prop l ''genre'')),
                        (''year'', js_or (opt_prop lastFmData ''year'') (own_prop l ''year''))])))
         else extractSongInfo query))"

text \<open>
  \<open>getSongDetails\<close>: the first recording of the catalogue, or the title and the artist
  it was given. \<open>xs?.[0]?.name\<close> is \<open>undefined\<close> when the array is missing or empty or the
  field is missing.
\<close>

definition first_field :: "string option list option \<Rightarrow> string option" where
  "first_field xs = (case xs of Some (x # rest) \<Rightarrow> x | _ \<Rightarrow> None)"

definition getSongDetails :: "env \<Rightarrow> jsval \<Rightarrow> jsval \<Rightarrow> jsval" where
  "getSongDetails env title artist =
     (case musicbrainz_query env title artist of
        Ok (Some (recording # others)) \<Rightarrow>
          (let releaseDate = first_field (rec_releases recording);
               year = (if truthy (js_str releaseDate)
                       then parseInt (substring0 (the releaseDate) 4) else JUndefined)
           in JObj [(''title'', js_or (js_str (rec_title recording)) title),
                    (''artist'', js_or (js_str (first_field (rec_artist_credit recording))) artist),
                    (''year'', year),
                    (''genre'', js_str (first_field (rec_tags recording)))])
      | _ \<Rightarrow> JObj [(''title'', title), (''artist'', artist)])"

text \<open>
  Lines 43 and 44 of the search route:
  \<open>const finalSongInfo = { ...songInfo, ...detailedInfo }\<close>.
\<close>

definition finalSongInfo :: "env \<Rightarrow> jsval \<Rightarrow> (string \<times> jsval) list" where
  "finalSongInfo env songInfo =
     (let s = own_props songInfo;
          detailedInfo = getSongDetails env (own_prop s ''title'') (own_prop s ''artist'')
      in spread2 songInfo detailedInfo)"

section \<open>\<open>JSON.parse\<close>\<close>

text \<open>
  The language's \<open>JSON.parse\<close>, which \<open>analyzeLyrics\<close> applies to the model's answer:
  a lexer and a pushdown automaton for the JSON grammar. \<open>None\<close> is the \<open>SyntaxError\<close> it
  throws. Numbers are read exactly; a \<open>\\u\<close> escape beyond \<open>0xFF\<close> is cut to the 8-bit
  characters of this model.
\<close>

datatype token = TLBrace | TRBrace | TLBracket | TRBracket | TColon | TComma | TVal jsval

definition isJsonSpace :: "char \<Rightarrow> bool" where
  "isJsonSpace c = (c \<in> {CHR 0x20, CHR 0x09, CHR 0x0A, CHR 0x0D})"

definition hex4 :: "string \<Rightarrow> nat option" where
  "hex4 ds =
     (if length ds = 4 \<and> (\<forall>d \<in> set ds. digit_value 16 d \<noteq> None)
      then Some (foldl (\<lambda>acc d. acc * 16 + the (digit_value 16 d)) 0 ds) else None)"

definition escape_char :: "char \<Rightarrow> char option" where
  "escape_char e =
     (if e = CHR 0x22 then Some (CHR 0x22)
      else if e = CHR 0x5C then Some (CHR 0x5C)
      else if e = CHR ''/'' then Some (CHR ''/'')
      else if e = CHR ''b'' then Some (CHR 0x08)
      else if e = CHR ''f'' then Some (CHR 0x0C)
      else if e = CHR ''n'' then Some (CHR 0x0A)
      else if e = CHR ''r'' then Some (CHR 0x0D)
      else if e = CHR ''t'' then Some (CHR 0x09)
      else None)"

text \<open>
  The rest of a string literal after its opening quote: the decoded text and the number
  of characters read, the closing quote included.
\<close>

fun lex_string :: "string \<Rightarrow> nat \<Rightarrow> string \<Rightarrow> (string \<times> nat) option" where
  "lex_string acc n [] = None"
| "lex_string acc n (c # cs) =
     (if c = CHR 0x22 then Some (rev acc, Suc n)
      else if c = CHR 0x5C then
        (case cs of
           [] \<Rightarrow> None
         | e # rest \<Rightarrow>
             if e = CHR ''u'' then
               (case hex4 (take 4 rest) of
                  None \<Rightarrow> None
                | Some u \<Rightarrow> lex_string (char_of u # acc) (n + 6) (drop 4 rest))
             else
               (case escape_char e of
                  None \<Rightarrow> None
                | Some ch \<Rightarrow> lex_string (ch # acc) (n + 2) rest))
      else if (of_char c :: nat) < 32 then None
      else lex_string (c # acc) (Suc n) cs)"

definition digits_value :: "string \<Rightarrow> nat" where
  "digits_value ds = foldl (\<lambda>acc d. acc * 10 + (of_char d - 48)) 0 ds"

text \<open>A number literal: \<open>-?(0|[1-9][0-9]*)(\.[0-9]+)?([eE][+-]?[0-9]+)?\<close>.\<close>

definition json_number :: "string \<Rightarrow> rat option" where
  "json_number txt =
     (let negative = (txt \<noteq> [] \<and> hd txt = CHR ''-'');
          s1 = (if negative then tl txt else txt);
          ip = takeWhile isDigit s1;
          s2 = dropWhile isDigit s1;
          hasFrac = (s2 \<noteq> [] \<and> hd s2 = CHR ''.'');
          fp = (if hasFrac then takeWhile isDigit (tl s2) else []);
          s3 = (if hasFrac then dropWhile isDigit (tl s2) else s2);
          hasExp = (s3 \<noteq> [] \<and> (hd s3 = CHR ''e'' \<or> hd s3 = CHR ''E''));
          s4 = (if hasExp then tl s3 else s3);
          expNegative = (hasExp \<and> s4 \<noteq> [] \<and> hd s4 = CHR ''-'');
          s5 = (if hasExp \<and> s4 \<noteq> [] \<and> (hd s4 = CHR ''-'' \<or> hd s4 = CHR ''+'') then tl s4 else s4);
          ep = (if hasExp then takeWhile isDigit s5 else []);
          s6 = (if hasExp then dropWhile isDigit s5 else s5);
          mantissa = (of_nat (digits_value (ip @ fp)) :: rat) / 10 ^ length fp;
          scaled = (if expNegative then mantissa / 10 ^ digits_value ep
                    else mantissa * 10 ^ digits_value ep)
      in if ip = [] \<or> (hd ip = CHR ''0'' \<and> length ip \<noteq> 1) \<or> (hasFrac \<and> fp = [])
            \<or> (hasExp \<and> ep = []) \<or> s6 \<noteq> []
         then None
         else Some (if negative then - scaled else scaled))"

definition isNumberChar :: "char \<Rightarrow> bool" where
  "isNumberChar c = (isDigit c \<or> c \<in> {CHR ''-'', CHR ''+'', CHR ''.'', CHR ''e'', CHR ''E''})"

text \<open>
  The token that starts with \<open>c\<close> (none for white space) and the number of characters
  of \<open>cs\<close> that belong to it.
\<close>

definition lex_token :: "char \<Rightarrow> string \<Rightarrow> (token option \<times> nat) option" where
  "lex_token c cs =
     (if isJsonSpace c then Some (None, 0)
      else if c = CHR ''{'' then Some (Some TLBrace, 0)
      else if c = CHR ''}'' then Some (Some TRBrace, 0)
      else if c = CHR ''['' then Some (Some TLBracket, 0)
      else if c = CHR '']'' then Some (Some TRBracket, 0)
      else if c = CHR '':'' then Some (Some TColon, 0)
      else if c = CHR '','' then Some (Some TComma, 0)
      else if c = CHR 0x22 then
        (case lex_string [] 0 cs of
           None \<Rightarrow> None
         | Some (str, n) \<Rightarrow> Some (Some (TVal (JStr str)), n))
      else if prefix ''true'' (c # cs) then Some (Some (TVal (JBool True)), 3)
      else if prefix ''false'' (c # cs) then Some (Some (TVal (JBool False)), 4)
      else if prefix ''null'' (c # cs) then Some (Some (TVal JNull), 3)
      else
        (let txt = takeWhile isNumberChar (c # cs) in
         case json_number txt of
           None \<Rightarrow> None
         | Some r \<Rightarrow> Some (Some (TVal (JNum r)), length txt - 1)))"

fun lex :: "string \<Rightarrow> token list option" where
  "lex [] = Some []"
| "lex (c # cs) =
     (case lex_token c cs of
        None \<Rightarrow> None
      | Some (t, n) \<Rightarrow>
          (case lex (drop n cs) of
             None \<Rightarrow> None
           | Some ts \<Rightarrow> Some (case t of None \<Rightarrow> ts | Some tok \<Rightarrow> tok # ts)))"

text \<open>
  The automaton. The stack holds the arrays and objects that are open, innermost first;
  \<open>Done\<close> holds the finished top-level value.
\<close>

datatype frame = Done jsval | InArray "jsval list" | InObject "(string \<times> jsval) list" "string option"

datatype mode = WantValue | WantValueOrClose | WantKey | WantKeyOrClose | WantColon | AfterValue

definition complete :: "jsval \<Rightarrow> frame list \<Rightarrow> (mode \<times> frame list) option" where
  "complete v stack =
     (case stack of
        [] \<Rightarrow> Some (AfterValue, [Done v])
      | InArray elems # below \<Rightarrow> Some (AfterValue, InArray (elems @ [v]) # below)
      | InObject members (Some k) # below \<Rightarrow>
          Some (AfterValue, InObject (members @ [(k, v)]) None # below)
      | _ \<Rightarrow> None)"

definition begin_value :: "token \<Rightarrow> frame list \<Rightarrow> (mode \<times> frame list) option" where
  "begin_value t stack =
     (case t of
        TVal v \<Rightarrow> complete v stack
      | TLBracket \<Rightarrow> Some (WantValueOrClose, InArray [] # stack)
      | TLBrace \<Rightarrow> Some (WantKeyOrClose, InObject [] None # stack)
      | _ \<Rightarrow> None)"

definition close_array :: "frame list \<Rightarrow> (mode \<times> frame list) option" where
  "close_array stack =
     (case stack of InArray elems # below \<Rightarrow> complete (JArr elems) below | _ \<Rightarrow> None)"

definition close_object :: "frame list \<Rightarrow> (mode \<times> frame list) option" where
  "close_object stack =
     (case stack of InObject members None # below \<Rightarrow> complete (JObj members) below | _ \<Rightarrow> None)"

definition read_key :: "token \<Rightarrow> frame list \<Rightarrow> (mode \<times> frame list) option" where
  "read_key t stack =
     (case (t, stack) of
        (TVal (JStr k), InObject members None # below) \<Rightarrow>
          Some (WantColon, InObject members (Some k) # below)
      | _ \<Rightarrow> None)"

fun step :: "mode \<Rightarrow> frame list \<Rightarrow> token \<Rightarrow> (mode \<times> frame list) option" where
  "step WantValue stack t = begin_value t stack"
| "step WantValueOrClose stack t =
     (if t = TRBracket then close_array stack else begin_value t stack)"
| "step WantKey stack t = read_key t stack"
| "step WantKeyOrClose stack t =
     (if t = TRBrace then close_object stack else read_key t stack)"
| "step WantColon stack t = (if t = TColon then Some (WantValue, stack) else None)"
| "step AfterValue stack t =
     (case (t, stack) of
        (TComma, InArray elems # below) \<Rightarrow> Some (WantValue, stack)
      | (TComma, InObject members None # below) \<Rightarrow> Some (WantKey, stack)
      | (TRBracket, _) \<Rightarrow> close_array stack
      | (TRBrace, _) \<Rightarrow> close_object stack
      | _ \<Rightarrow> None)"

fun run :: "mode \<times> frame list \<Rightarrow> token list \<Rightarrow> (mode \<times> frame list) option" where
  "run state [] = Some state"
| "run state (t # ts) =
     (case step (fst state) (snd state) t of None \<Rightarrow> None | Some state' \<Rightarrow> run state' ts)"

definition JSON_parse :: "string \<Rightarrow> jsval option" where
  "JSON_parse text =
     (case lex text of
        None \<Rightarrow> None
      | Some tokens \<Rightarrow>
          (case run (WantValue, []) tokens of
             Some (AfterValue, [Done v]) \<Rightarrow> Some v
           | _ \<Rightarrow> None))"

section \<open>The analysis engine (server/openai.ts)\<close>

text \<open>
  Both functions wrap every error of their body in a new \<open>Error\<close> whose message starts
  with a fixed prefix; the cause is kept here in place of the engine's message text.
\<close>

datatype cause = ApiFailure string | SyntaxError | TypeError

datatype analysis_error = FailedToAnalyzeLyrics cause | FailedToGenerateSongMeaning cause

record LyricsAnalysis =
  la_meaning :: jsval
  la_themes :: "jsval list"
  la_mood :: jsval
  la_interpretation :: jsval

text \<open>\<open>content || fallback\<close> for \<open>content: string | null\<close>.\<close>

definition content_or :: "string option \<Rightarrow> string \<Rightarrow> string" where
  "content_or content fallback =
     (case content of None \<Rightarrow> fallback | Some s \<Rightarrow> if s = [] then fallback else s)"

definition analyzeLyrics :: "env \<Rightarrow> jsval \<Rightarrow> jsval \<Rightarrow> jsval \<Rightarrow> analysis_error + LyricsAnalysis" where
  "analyzeLyrics env songTitle artist lyrics =
     (case openai_json env songTitle artist lyrics of
        ApiError msg \<Rightarrow> Inl (FailedToAnalyzeLyrics (ApiFailure msg))
      | Content content \<Rightarrow>
          (case JSON_parse (content_or content ''{}'') of
             None \<Rightarrow> Inl (FailedToAnalyzeLyrics SyntaxError)
           | Some result \<Rightarrow>
               (case (get_prop result ''meaning'', get_prop result ''themes'',
                      get_prop result ''mood'', get_prop result ''interpretation'') of
                  (Some meaning, Some themes, Some mood, Some interpretation) \<Rightarrow>
                    Inr \<lparr> la_meaning = js_or meaning (JStr ''Unable to analyze the meaning of this song.''),
                          la_themes = (case themes of JArr xs \<Rightarrow> xs | _ \<Rightarrow> []),
                          la_mood = js_or mood (JStr ''Unknown''),
                          la_interpretation =
                            js_or interpretation (JStr ''No additional interpretation available.'') \<rparr>
                | _ \<Rightarrow> Inl (FailedToAnalyzeLyrics TypeError))))"

definition generateSongMeaning :: "env \<Rightarrow> jsval \<Rightarrow> jsval \<Rightarrow> jsval \<Rightarrow> jsval \<Rightarrow> analysis_error + string" where
  "generateSongMeaning env songTitle artist genre year =
     (case openai_text env songTitle artist genre year of
        ApiError msg \<Rightarrow> Inl (FailedToGenerateSongMeaning (ApiFailure msg))
      | Content content \<Rightarrow> Inr (content_or content ''Unable to generate analysis for this song.''))"

section \<open>The persistence layer (server/storage.ts over shared/schema.ts)\<close>

text \<open>
  The tables of \<open>shared/schema.ts\<close>. \<open>serial\<close> keys come from one sequence per table,
  \<open>created_at\<close> is filled by the database (\<open>defaultNow()\<close>) with the time of the insert,
  which the caller of the model supplies.
\<close>

record SongAnalysis =
  sa_id :: int
  sa_title :: string
  sa_artist :: string
  sa_genre :: "string option"
  sa_yearReleased :: "int option"
  sa_lyricsAnalysis :: string
  sa_userId :: string
  sa_createdAt :: nat

record InsertSongAnalysis =
  isa_title :: string
  isa_artist :: string
  isa_genre :: "string option"
  isa_yearReleased :: "int option"
  isa_lyricsAnalysis :: string
  isa_userId :: string

record Favorite =
  fav_id :: int
  fav_userId :: string
  fav_songAnalysisId :: int
  fav_createdAt :: nat

record InsertFavorite =
  ifav_userId :: string
  ifav_songAnalysisId :: int

record SearchHistory =
  sh_id :: int
  sh_userId :: string
  sh_searchQuery :: string
  sh_songAnalysisId :: "int option"
  sh_createdAt :: nat

record InsertSearchHistory =
  ish_userId :: string
  ish_searchQuery :: string
  ish_songAnalysisId :: "int option"

record database =
  db_users :: "string list"
  db_songAnalyses :: "SongAnalysis list"
  db_favorites :: "Favorite list"
  db_searchHistory :: "SearchHistory list"
  seq_songAnalyses :: int
  seq_favorites :: int
  seq_searchHistory :: int

text \<open>
  A statement fails when the database cannot be reached or when a constraint of the
  schema is violated; drizzle then rejects the promise, which the calling route catches.
  Which statements cannot reach the database is part of the environment of a request:
  \<open>unavailable\<close> names the storage methods whose statement fails.
\<close>

datatype db_error =
  ConnectionError | ForeignKeyViolation | OutOfRange | NegativeLimit | InvalidValue

datatype storage_method =
    CreateSongAnalysis | GetUserSongAnalyses | AddToFavorites | RemoveFromFavorites
  | GetUserFavorites | IsFavorite | AddToSearchHistory | GetUserSearchHistory
  | ClearUserSearchHistory | UpsertUser

type_synonym faults = "storage_method \<Rightarrow> bool"

text \<open>The \<open>integer\<close> columns are 32-bit.\<close>

definition int4 :: "int \<Rightarrow> bool" where
  "int4 n = (- 2147483648 \<le> n \<and> n \<le> 2147483647)"


definition limit_rows :: "int \<Rightarrow> 'a list \<Rightarrow> db_error + 'a list" where
  "limit_rows n rows = (if n < 0 then Inl NegativeLimit else Inr (take (nat n) rows))"

definition createSongAnalysis ::
  "faults \<Rightarrow> nat \<Rightarrow> database \<Rightarrow> InsertSongAnalysis \<Rightarrow> db_error + (SongAnalysis \<times> database)" where
  "createSongAnalysis unavailable now db analysis =
     (if unavailable CreateSongAnalysis then Inl ConnectionError
      else if isa_userId analysis \<notin> set (db_users db) then Inl ForeignKeyViolation
      else if (case isa_yearReleased analysis of None \<Rightarrow> False | Some y \<Rightarrow> \<not> int4 y)
        then Inl OutOfRange
      else
        let songAnalysis = \<lparr> sa_id = seq_songAnalyses db,
              sa_title = isa_title analysis, sa_artist = isa_artist analysis,
              sa_genre = isa_genre analysis, sa_yearReleased = isa_yearReleased analysis,
              sa_lyricsAnalysis = isa_lyricsAnalysis analysis,
              sa_userId = isa_userId analysis, sa_createdAt = now \<rparr>
        in Inr (songAnalysis,
              db \<lparr> db_songAnalyses := db_songAnalyses db @ [songAnalysis],
                   seq_songAnalyses := seq_songAnalyses db + 1 \<rparr>))"


definition addToFavorites ::
  "faults \<Rightarrow> nat \<Rightarrow> database \<Rightarrow> InsertFavorite \<Rightarrow> db_error + (Favorite \<times> database)" where
  "addToFavorites unavailable now db favorite =
     (if unavailable AddToFavorites then Inl ConnectionError
      else if \<not> int4 (ifav_songAnalysisId favorite) then Inl OutOfRange
      else if ifav_userId favorite \<notin> set (db_users db)
            \<or> ifav_songAnalysisId favorite \<notin> sa_id ` set (db_songAnalyses db)
        then Inl ForeignKeyViolation
      else
        let newFavorite = \<lparr> fav_id = seq_favorites db, fav_userId = ifav_userId favorite,
              fav_songAnalysisId = ifav_songAnalysisId favorite, fav_createdAt = now \<rparr>
        in Inr (newFavorite,
              db \<lparr> db_favorites := db_favorites db @ [newFavorite],
                   seq_favorites := seq_favorites db + 1 \<rparr>))"

definition removeFromFavorites ::
  "faults \<Rightarrow> database \<Rightarrow> string \<Rightarrow> int \<Rightarrow> db_error + database" where
  "removeFromFavorites unavailable db userId songAnalysisId =
     (if unavailable RemoveFromFavorites then Inl ConnectionError
      else Inr (db \<lparr> db_favorites :=
                  filter (\<lambda>f. \<not> (fav_userId f = userId \<and> fav_songAnalysisId f = songAnalysisId))
                    (db_favorites db) \<rparr>))"



definition isFavorite :: "faults \<Rightarrow> database \<Rightarrow> string \<Rightarrow> int \<Rightarrow> db_error + bool" where
  "isFavorite unavailable db userId songAnalysisId =
     (if unavailable IsFavorite then Inl ConnectionError
      else Inr (filter (\<lambda>f. fav_userId f = userId \<and> fav_songAnalysisId f = songAnalysisId)
                  (db_favorites db) \<noteq> []))"

definition addToSearchHistory ::
  "faults \<Rightarrow> nat \<Rightarrow> database \<Rightarrow> InsertSearchHistory \<Rightarrow> db_error + (SearchHistory \<times> database)" where
  "addToSearchHistory unavailable now db search =
     (if unavailable AddToSearchHistory then Inl ConnectionError
      else if (case ish_songAnalysisId search of None \<Rightarrow> False | Some i \<Rightarrow> \<not> int4 i)
        then Inl OutOfRange
      else if ish_userId search \<notin> set (db_users db)
            \<or> (case ish_songAnalysisId search of None \<Rightarrow> False
                | Some i \<Rightarrow> i \<notin> sa_id ` set (db_songAnalyses db))
        then Inl ForeignKeyViolation
      else
        let newSearch = \<lparr> sh_id = seq_searchHistory db, sh_userId = ish_userId search,
              sh_searchQuery = ish_searchQuery search,
              sh_songAnalysisId = ish_songAnalysisId search, sh_createdAt = now \<rparr>
        in Inr (newSearch,
              db \<lparr> db_searchHistory := db_searchHistory db @ [newSearch],
                   seq_searchHistory := seq_searchHistory db + 1 \<rparr>))"


definition clearUserSearchHistory :: "faults \<Rightarrow> database \<Rightarrow> string \<Rightarrow> db_error + database" where
  "clearUserSearchHistory unavailable db userId =
     (if unavailable ClearUserSearchHistory then Inl ConnectionError
      else Inr (db \<lparr> db_searchHistory := filter (\<lambda>h. sh_userId h \<noteq> userId) (db_searchHistory db) \<rparr>))"

text \<open>
  \<open>upsertUser\<close>, which the authentication layer calls at login. Of a user row only the
  key is kept: the other columns are read by no operation of the pipeline.
\<close>

definition upsertUser :: "faults \<Rightarrow> database \<Rightarrow> string \<Rightarrow> db_error + database" where
  "upsertUser unavailable db userId =
     (if unavailable UpsertUser then Inl ConnectionError
      else Inr (db \<lparr> db_users := List.insert userId (db_users db) \<rparr>))"

section \<open>The routes (server/routes.ts)\<close>

text \<open>
  A handler is a function from the database before the request to the HTTP response and
  the database after it. Requests are handled one at a time. \<open>userId\<close> is
  \<open>req.user.claims.sub\<close>, set by the authentication middleware.
\<close>

datatype failure = Analysis analysis_error | Storage db_error | Runtime cause

datatype body =
    Message string
  | Failure string failure
  | AnalysisBody SongAnalysis
  | AnalysesBody "SongAnalysis list"
  | FavoriteBody Favorite
  | FavoritesBody "(Favorite \<times> SongAnalysis) list"
  | HistoryBody "SearchHistory list"
  | NoBody

type_synonym response = "nat \<times> body"

subsection \<open>Song search and analysis\<close>

text \<open>
  \<open>String(v)\<close>, as a template literal and \<open>Array.prototype.join\<close> apply it. How the
  engine prints a number is taken from the environment.
\<close>

fun js_toString :: "(rat \<Rightarrow> string) \<Rightarrow> jsval \<Rightarrow> string" where
  "js_toString num JUndefined = ''undefined''"
| "js_toString num JNull = ''null''"
| "js_toString num (JBool b) = (if b then ''true'' else ''false'')"
| "js_toString num (JNum r) = num r"
| "js_toString num JNaN = ''NaN''"
| "js_toString num (JStr s) = s"
| "js_toString num (JArr xs) =
     join (map (\<lambda>x. if x = JNull \<or> x = JUndefined then [] else js_toString num x) xs) '',''"
| "js_toString num (JObj kvs) = ''[object Object]''"

definition array_join :: "(rat \<Rightarrow> string) \<Rightarrow> jsval list \<Rightarrow> string \<Rightarrow> string" where
  "array_join num xs sep =
     join (map (\<lambda>x. if x = JNull \<or> x = JUndefined then [] else js_toString num x) xs) sep"

text \<open>The external calls a request makes to the analysis engine, in order.\<close>

datatype call =
    AnalyzeLyrics jsval jsval jsval
  | GenerateSongMeaning jsval jsval jsval jsval

text \<open>
  Lines 47 to 65: the choice of the analysis variant on \<open>finalSongInfo.lyrics\<close>, and the
  display string of the lyrics-grounded one.
\<close>

definition analysis_call :: "(string \<times> jsval) list \<Rightarrow> call" where
  "analysis_call final =
     (if truthy (own_prop final ''lyrics'')
      then AnalyzeLyrics (own_prop final ''title'') (own_prop final ''artist'')
             (own_prop final ''lyrics'')
      else GenerateSongMeaning (own_prop final ''title'') (own_prop final ''artist'')
             (own_prop final ''genre'') (own_prop final ''year''))"

definition run_analysis :: "env \<Rightarrow> call \<Rightarrow> analysis_error + string" where
  "run_analysis env c =
     (case c of
        AnalyzeLyrics title artist lyrics \<Rightarrow>
          (case analyzeLyrics env title artist lyrics of
             Inl e \<Rightarrow> Inl e
           | Inr lyricsAnalysis \<Rightarrow>
               Inr (js_toString (number_toString env) (la_meaning lyricsAnalysis)
                    @ [CHR 0x0A, CHR 0x0A] @ ''Key themes: ''
                    @ array_join (number_toString env) (la_themes lyricsAnalysis) '', ''
                    @ [CHR 0x0A] @ ''Mood: ''
                    @ js_toString (number_toString env) (la_mood lyricsAnalysis)
                    @ [CHR 0x0A, CHR 0x0A]
                    @ js_toString (number_toString env) (la_interpretation lyricsAnalysis)))
      | GenerateSongMeaning title artist genre year \<Rightarrow>
          generateSongMeaning env title artist genre year)"

text \<open>
  Lines 68 to 78: \<open>/Genre:\s*(.+)/i\<close>, \<open>/Release Year:\s*(\d{4})/i\<close>, and the same
  two patterns without groups under the flags \<open>gi\<close>.
\<close>

definition genre_pattern :: regex where
  "genre_pattern = seqs [Lit ''Genre:'', Rep Space 0 None True, Group 1 (Rep Dot 1 None True)]"

definition year_pattern :: regex where
  "year_pattern = seqs [Lit ''Release Year:'', Rep Space 0 None True,
                        Group 1 (Rep Digit 4 (Some 4) True)]"

definition extractedGenre :: "(string \<times> jsval) list \<Rightarrow> string \<Rightarrow> jsval" where
  "extractedGenre final analysis =
     (case str_match genre_pattern True analysis of
        Some genreMatch \<Rightarrow> JStr (trim (capture genreMatch 1))
      | None \<Rightarrow> own_prop final ''genre'')"

definition extractedYear :: "(string \<times> jsval) list \<Rightarrow> string \<Rightarrow> jsval" where
  "extractedYear final analysis =
     (case str_match year_pattern True analysis of
        Some yearMatch \<Rightarrow> parseInt (capture yearMatch 1)
      | None \<Rightarrow> own_prop final ''year'')"

definition cleanedAnalysis :: "string \<Rightarrow> string" where
  "cleanedAnalysis analysis =
     trim (replace_all_empty year_pattern True (replace_all_empty genre_pattern True analysis))"

text \<open>
  The values handed to \<open>createSongAnalysis\<close>: a \<open>text\<close> column takes a string, a
  nullable column takes \<open>v || null\<close>, the year an integer. \<open>None\<close>: the statement is
  rejected.
\<close>

definition text_column :: "jsval \<Rightarrow> string option" where
  "text_column v = (case v of JStr s \<Rightarrow> Some s | _ \<Rightarrow> None)"

definition nullable_text :: "jsval \<Rightarrow> string option option" where
  "nullable_text v =
     (if \<not> truthy v then Some None else case v of JStr s \<Rightarrow> Some (Some s) | _ \<Rightarrow> None)"

definition nullable_integer :: "jsval \<Rightarrow> int option option" where
  "nullable_integer v =
     (if \<not> truthy v then Some None
      else case v of JNum r \<Rightarrow> if r = of_int \<lfloor>r\<rfloor> then Some (Some \<lfloor>r\<rfloor>) else None | _ \<Rightarrow> None)"

definition insert_values ::
  "(string \<times> jsval) list \<Rightarrow> string \<Rightarrow> string \<Rightarrow> InsertSongAnalysis option" where
  "insert_values final analysis userId =
     (case (text_column (own_prop final ''title''), text_column (own_prop final ''artist''),
            nullable_text (extractedGenre final analysis),
            nullable_integer (extractedYear final analysis)) of
        (Some title, Some artist, Some genre, Some year) \<Rightarrow>
          Some \<lparr> isa_title = title, isa_artist = artist, isa_genre = genre,
                 isa_yearReleased = year, isa_lyricsAnalysis = cleanedAnalysis analysis,
                 isa_userId = userId \<rparr>
      | _ \<Rightarrow> None)"

text \<open>
  Lines 80 to 97: the analysis is stored, then the history entry that refers to it. Any
  rejection is caught by the handler and answered with status 500.
\<close>

definition save_analysis ::
  "faults \<Rightarrow> nat \<Rightarrow> database \<Rightarrow> string \<Rightarrow> string \<Rightarrow> (string \<times> jsval) list \<Rightarrow> string
     \<Rightarrow> response \<times> database" where
  "save_analysis unavailable now db userId query final analysis =
     (case insert_values final analysis userId of
        None \<Rightarrow> ((500, Failure ''Failed to analyze song'' (Storage InvalidValue)), db)
      | Some values \<Rightarrow>
          (case createSongAnalysis unavailable now db values of
             Inl e \<Rightarrow> ((500, Failure ''Failed to analyze song'' (Storage e)), db)
           | Inr (songAnalysis, db1) \<Rightarrow>
               (case addToSearchHistory unavailable now db1
                       \<lparr> ish_userId = userId, ish_searchQuery = query,
                         ish_songAnalysisId = Some (sa_id songAnalysis) \<rparr> of
                  Inl e \<Rightarrow> ((500, Failure ''Failed to analyze song'' (Storage e)), db1)
                | Inr (newSearch, db2) \<Rightarrow> ((200, AnalysisBody songAnalysis), db2))))"

text \<open>
  \<open>app.post("/api/songs/search", ...)\<close>. The result is the response, the database after
  the request and the calls made to the analysis engine. \<open>search_and_store\<close> is the
  handler from line 35 on, for a query that has passed the check of line 31.
\<close>

definition search_and_store ::
  "env \<Rightarrow> faults \<Rightarrow> nat \<Rightarrow> database \<Rightarrow> string \<Rightarrow> string \<Rightarrow> response \<times> database \<times> call list" where
  "search_and_store env unavailable now db userId query =
     (let songInfo = searchSong env (trim query) in
      if \<not> truthy songInfo then ((404, Message ''Song not found''), db, [])
      else
        (let final = finalSongInfo env songInfo;
             c = analysis_call final
         in case run_analysis env c of
              Inl e \<Rightarrow> ((500, Failure ''Failed to analyze song'' (Analysis e)), db, [c])
            | Inr analysis \<Rightarrow>
                (fst (save_analysis unavailable now db userId query final analysis),
                 snd (save_analysis unavailable now db userId query final analysis),
                 [c])))"

definition post_songs_search ::
  "env \<Rightarrow> faults \<Rightarrow> nat \<Rightarrow> database \<Rightarrow> string \<Rightarrow> jsval \<Rightarrow> response \<times> database \<times> call list" where
  "post_songs_search env unavailable now db userId reqBody =
     (case get_prop reqBody ''query'' of
        None \<Rightarrow> ((500, Failure ''Failed to analyze song'' (Runtime TypeError)), db, [])
      | Some query \<Rightarrow>
          (case query of
             JStr q \<Rightarrow>
               if q = [] then ((400, Message ''Query is required''), db, [])
               else search_and_store env unavailable now db userId q
           | _ \<Rightarrow> ((400, Message ''Query is required''), db, [])))"

subsection \<open>Favorites\<close>

text \<open>
  \<open>insertFavoriteSchema.parse({ ...req.body, userId })\<close>: the insert schema of the
  \<open>favorites\<close> table without \<open>id\<close> and \<open>createdAt\<close>, that is a string \<open>userId\<close> and an
  integer \<open>songAnalysisId\<close>. \<open>None\<close> is the \<open>ZodError\<close> it throws.
\<close>

definition insertFavoriteSchema_parse :: "(string \<times> jsval) list \<Rightarrow> InsertFavorite option" where
  "insertFavoriteSchema_parse data =
     (case (own_prop data ''userId'', own_prop data ''songAnalysisId'') of
        (JStr u, JNum r) \<Rightarrow>
          if r = of_int \<lfloor>r\<rfloor> then Some \<lparr> ifav_userId = u, ifav_songAnalysisId = \<lfloor>r\<rfloor> \<rparr> else None
      | _ \<Rightarrow> None)"

text \<open>\<open>app.post("/api/favorites", ...)\<close>.\<close>

definition post_favorites ::
  "faults \<Rightarrow> nat \<Rightarrow> database \<Rightarrow> string \<Rightarrow> jsval \<Rightarrow> response \<times> database" where
  "post_favorites unavailable now db userId reqBody =
     (case insertFavoriteSchema_parse (spread2 reqBody (JObj [(''userId'', JStr userId)])) of
        None \<Rightarrow> ((500, Message ''Failed to add to favorites''), db)
      | Some validatedData \<Rightarrow>
          (case isFavorite unavailable db userId (ifav_songAnalysisId validatedData) of
             Inl e \<Rightarrow> ((500, Message ''Failed to add to favorites''), db)
           | Inr isFav \<Rightarrow>
               if isFav then ((400, Message ''Song is already in favorites''), db)
               else
                 (case addToFavorites unavailable now db validatedData of
                    Inl e \<Rightarrow> ((500, Message ''Failed to add to favorites''), db)
                  | Inr (favorite, db') \<Rightarrow> ((201, FavoriteBody favorite), db'))))"

text \<open>\<open>app.delete("/api/favorites/:songAnalysisId", ...)\<close>.\<close>

definition delete_favorites ::
  "faults \<Rightarrow> database \<Rightarrow> string \<Rightarrow> string \<Rightarrow> response \<times> database" where
  "delete_favorites unavailable db userId param =
     (case parseInt param of
        JNum r \<Rightarrow>
          (case removeFromFavorites unavailable db userId \<lfloor>r\<rfloor> of
             Inl e \<Rightarrow> ((500, Message ''Failed to remove from favorites''), db)
           | Inr db' \<Rightarrow> ((204, NoBody), db'))
      | _ \<Rightarrow> ((500, Message ''Failed to remove from favorites''), db))"


subsection \<open>History listings\<close>




text \<open>\<open>app.delete("/api/search/history", ...)\<close>.\<close>

definition delete_search_history :: "faults \<Rightarrow> database \<Rightarrow> string \<Rightarrow> response \<times> database" where
  "delete_search_history unavailable db userId =
     (case clearUserSearchHistory unavailable db userId of
        Inl e \<Rightarrow> ((500, Message ''Failed to clear search history''), db)
      | Inr db' \<Rightarrow> ((204, NoBody), db'))"

subsection \<open>The server as a transition system\<close>

text \<open>
  The requests that can change the database, each with what the outside world does
  during it, and the database they leave. The server starts on empty tables.
\<close>

datatype request =
    SongsSearch env faults nat string jsval
  | FavoritesAdd faults nat string jsval
  | FavoritesRemove faults string string
  | SearchHistoryClear faults string
  | Login faults string

fun serve :: "database \<Rightarrow> request \<Rightarrow> database" where
  "serve db (SongsSearch env unavailable now userId reqBody) =
     fst (snd (post_songs_search env unavailable now db userId reqBody))"
| "serve db (FavoritesAdd unavailable now userId reqBody) =
     snd (post_favorites unavailable now db userId reqBody)"
| "serve db (FavoritesRemove unavailable userId param) =
     snd (delete_favorites unavailable db userId param)"
| "serve db (SearchHistoryClear unavailable userId) =
     snd (delete_search_history unavailable db userId)"
| "serve db (Login unavailable userId) =
     (case upsertUser unavailable db userId of Inl e \<Rightarrow> db | Inr db' \<Rightarrow> db')"

definition empty_database :: database where
  "empty_database =
     \<lparr> db_users = [], db_songAnalyses = [], db_favorites = [], db_searchHistory = [],
       seq_songAnalyses = 1, seq_favorites = 1, seq_searchHistory = 1 \<rparr>"

inductive reachable :: "database \<Rightarrow> bool" where
  start: "reachable empty_database"
| request: "reachable db \<Longrightarrow> reachable (serve db req)"

text \<open>The number of favorite rows of a (user, analysis) pair.\<close>

definition favorite_count :: "database \<Rightarrow> string \<Rightarrow> int \<Rightarrow> nat" where
  "favorite_count db userId songAnalysisId =
     length (filter (\<lambda>f. fav_userId f = userId \<and> fav_songAnalysisId f = songAnalysisId)
               (db_favorites db))"

section \<open>Definitions written from the specification's words\<close>

text \<open>
  The specification describes the first rule of the parser in words: "split on the first
  occurrence: left = artist, right (rejoined if multiple separators) = title". The two
  parts of a string around the first occurrence of a separator, written from these words
  and not from \<open>split\<close> and \<open>join\<close>:
\<close>

fun before_first :: "string \<Rightarrow> string \<Rightarrow> string" where
  "before_first sep [] = []"
| "before_first sep (c # cs) = (if prefix sep (c # cs) then [] else c # before_first sep cs)"

fun after_first :: "string \<Rightarrow> string \<Rightarrow> string" where
  "after_first sep [] = []"
| "after_first sep (c # cs) =
     (if prefix sep (c # cs) then drop (length sep) (c # cs) else after_first sep cs)"

text \<open>The specification's "documented all-defaults tuple" of the lyrics-grounded variant.\<close>

definition all_defaults :: LyricsAnalysis where
  "all_defaults =
     \<lparr> la_meaning = JStr ''Unable to analyze the meaning of this song.'',
       la_themes = [],
       la_mood = JStr ''Unknown'',
       la_interpretation = JStr ''No additional interpretation available.'' \<rparr>"

text \<open>The specification's "unique per (userId, songAnalysisId) pair".\<close>

definition favorites_unique :: "database \<Rightarrow> bool" where
  "favorites_unique db = (\<forall>userId songAnalysisId. favorite_count db userId songAnalysisId \<le> 1)"

text \<open>The specification's "no history entry ever references a nonexistent analysis".\<close>

definition history_references_exist :: "database \<Rightarrow> bool" where
  "history_references_exist db =
     (\<forall>h \<in> set (db_searchHistory db).
        case sh_songAnalysisId h of
          None \<Rightarrow> True
        | Some i \<Rightarrow> i \<in> sa_id ` set (db_songAnalyses db))"

section \<open>Example data\<close>

text \<open>A database with one user and two analyses, and a request body naming the first.\<close>

definition db0 :: database where
  "db0 = \<lparr> db_users = [''u1''],
           db_songAnalyses =
             [\<lparr> sa_id = 1, sa_title = ''Stay'', sa_artist = ''Unknown Artist'', sa_genre = None,
                sa_yearReleased = None, sa_lyricsAnalysis = ''A song about staying.'',
                sa_userId = ''u1'', sa_createdAt = 10 \<rparr>,
              \<lparr> sa_id = 2, sa_title = ''Chandelier'', sa_artist = ''Sia'', sa_genre = Some ''Pop'',
                sa_yearReleased = Some 2014, sa_lyricsAnalysis = ''A song about excess.'',
                sa_userId = ''u1'', sa_createdAt = 20 \<rparr>],
           db_favorites = [], db_searchHistory = [],
           seq_songAnalyses = 3, seq_favorites = 1, seq_searchHistory = 1 \<rparr>"


definition favorite_request :: "int \<Rightarrow> jsval" where
  "favorite_request songAnalysisId = JObj [(''songAnalysisId'', JNum (of_int songAnalysisId))]"

definition always_available :: faults where
  "always_available method = False"

text \<open>
  An environment in which no lyrics source and no catalogue has data and the language
  model answers with free text; and one in which every service has data for the song,
  the answer of the JSON completion being left open.
\<close>

definition env_no_sources :: env where
  "env_no_sources =
     \<lparr> GENIUS_ACCESS_TOKEN = None, LASTFM_API_KEY = None,
       genius_search = (\<lambda>q. Rejected),
       lastfm_getInfo = (\<lambda>artist title. Rejected),
       lyricsovh_get = (\<lambda>artist title. NotOk),
       musicbrainz_query = (\<lambda>title artist. Ok (Some [])),
       openai_json = (\<lambda>title artist lyrics. ApiError ''unreachable''),
       openai_text = (\<lambda>title artist genre year. Content (Some ''Sad. Genre: Pop'')),
       number_toString = (\<lambda>r. ''0'') \<rparr>"

definition env_catalogue :: "completion \<Rightarrow> env" where
  "env_catalogue answer =
     \<lparr> GENIUS_ACCESS_TOKEN = Some ''token'', LASTFM_API_KEY = Some ''key'',
       genius_search =
         (\<lambda>q. Ok [\<lparr> hit_title = ''Chandelier'', hit_artist = ''Sia'',
                     hit_release_date_for_display = Some ''March 17, 2014'',
                     hit_url = ''https://genius.com/Sia-chandelier-lyrics'' \<rparr>]),
       lastfm_getInfo =
         (\<lambda>artist title.
            Ok (Some \<lparr> track_album = Some \<lparr> album_attr = Some \<lparr> attr_year = Some ''2015'' \<rparr> \<rparr>,
                       track_toptags = Some [''pop''] \<rparr>)),
       lyricsovh_get = (\<lambda>artist title. NotOk),
       musicbrainz_query =
         (\<lambda>title artist.
            Ok (Some [\<lparr> rec_title = Some ''Chandelier (Live)'',
                         rec_artist_credit = Some [Some ''Sia Furler''],
                         rec_releases = Some [Some ''2016-01-01''],
                         rec_tags = Some [Some ''dance''] \<rparr>])),
       openai_json = (\<lambda>title artist lyrics. answer),
       openai_text = (\<lambda>title artist genre year. ApiError ''unreachable''),
       number_toString = (\<lambda>r. ''0'') \<rparr>"

text \<open>A JSON string literal; a database whose analysis table cannot be written; the
  rows that a search for "Stay" at time 50 adds to \<open>db0\<close>.\<close>

definition quoted :: "string \<Rightarrow> string" where
  "quoted s = [CHR 0x22] @ s @ [CHR 0x22]"

definition create_unavailable :: faults where
  "create_unavailable method = (method = CreateSongAnalysis)"

definition stored_Stay :: SongAnalysis where
  "stored_Stay = \<lparr> sa_id = 3, sa_title = ''Stay'', sa_artist = ''Unknown Artist'',
                   sa_genre = Some ''Pop'', sa_yearReleased = None, sa_lyricsAnalysis = ''Sad.'',
                   sa_userId = ''u1'', sa_createdAt = 50 \<rparr>"

definition history_Stay :: SearchHistory where
  "history_Stay = \<lparr> sh_id = 1, sh_userId = ''u1'', sh_searchQuery = ''Stay'',
                    sh_songAnalysisId = Some 3, sh_createdAt = 50 \<rparr>"

section \<open>Verified properties\<close>

subsection \<open>Objects\<close>

lemma assign_props_distinct:
  "distinct (map fst target) \<Longrightarrow> distinct (map fst (assign_props target src))"
  unfolding assign_props_def
  by (induction src arbitrary: target) (simp_all add: distinct_update)

lemma map_of_assign_props:
  "distinct (map fst target) \<Longrightarrow>
   map_of (assign_props target src) = map_of target ++ map_of (rev src)"
  unfolding assign_props_def
proof (induction src arbitrary: target)
  case Nil
  then show ?case by simp
next
  case (Cons kv src)
  have d: "distinct (map fst (AList.update (fst kv) (snd kv) target))"
    using Cons.prems by (simp add: distinct_update)
  have "map_of (AList.update (fst kv) (snd kv) target) ++ map_of (rev src)
        = map_of target ++ (map_of [kv] ++ map_of (rev src))"
    by (cases kv) (simp add: update_conv' map_add_def fun_eq_iff split: option.splits)
  then show ?case
    using Cons.IH [OF d] by simp
qed

lemma map_of_rev_distinct:
  "distinct (map fst kvs) \<Longrightarrow> map_of (rev kvs) = map_of kvs"
proof (induction kvs)
  case Nil
  then show ?case by simp
next
  case (Cons kv kvs)
  have fresh: "map_of kvs (fst kv) = None"
    using Cons.prems by (simp add: map_of_eq_None_iff)
  have "map_of [kv] ++ map_of kvs = map_of (kv # kvs)"
    using fresh by (cases kv) (auto simp: map_add_def fun_eq_iff split: option.splits)
  then show ?case
    using Cons by simp
qed

lemma own_prop_spread2:
  "own_prop (spread2 a b) k =
     (case map_of (rev (own_props b)) k of
        Some v \<Rightarrow> v
      | None \<Rightarrow> own_prop (own_props a) k)"
proof -
  have d1: "distinct (map fst (assign_props [] (own_props a)))"
    by (rule assign_props_distinct) simp
  have d2: "distinct (map fst (spread2 a b))"
    unfolding spread2_def by (rule assign_props_distinct [OF d1])
  have "map_of (rev (spread2 a b)) = map_of (spread2 a b)"
    by (rule map_of_rev_distinct [OF d2])
  also have "\<dots> = (map_of [] ++ map_of (rev (own_props a))) ++ map_of (rev (own_props b))"
    unfolding spread2_def
    by (simp add: map_of_assign_props [OF d1] map_of_assign_props [of "[]", simplified])
  finally show ?thesis
    by (simp add: own_prop_def map_add_def split: option.splits)
qed

subsection \<open>Favorites\<close>


lemma limit_rows_props:
  assumes "limit_rows n rows = Inr out"
  shows "length out \<le> nat n" and "out = take (nat n) rows"
  using assms by (auto simp: limit_rows_def split: if_splits)

lemma isFavorite_count:
  "\<not> unavailable IsFavorite \<Longrightarrow>
   isFavorite unavailable db userId sid = Inr (0 < favorite_count db userId sid)"
  by (simp add: isFavorite_def favorite_count_def)

lemma parse_favorite_request:
  assumes "own_prop (own_props reqBody) ''songAnalysisId'' = JNum (of_int sid)"
  shows "insertFavoriteSchema_parse (spread2 reqBody (JObj [(''userId'', JStr userId)]))
         = Some \<lparr> ifav_userId = userId, ifav_songAnalysisId = sid \<rparr>"
  using assms
  by (simp add: insertFavoriteSchema_parse_def own_prop_spread2 own_props_def)

text \<open>
  A first request for a pair that is not yet a favorite, when it succeeds, leaves exactly
  one row for the pair.
\<close>

lemma first_favorite_counts_one:
  assumes "own_prop (own_props reqBody) ''songAnalysisId'' = JNum (of_int sid)"
      and "post_favorites unavailable now db userId reqBody = ((201, b), db')"
  shows "favorite_count db userId sid = 0" and "favorite_count db' userId sid = 1"
  using assms
  by (auto simp: post_favorites_def parse_favorite_request isFavorite_def addToFavorites_def
        favorite_count_def Let_def split: if_splits sum.splits)




subsection \<open>The query parser\<close>

lemma split_from_skip: "split_from sep cur n s = split_from sep cur 0 (drop n s)"
  by (induction sep cur n s rule: split_from.induct) simp_all

lemma split_from_nonempty: "split_from sep cur n s \<noteq> []"
  by (induction sep cur n s rule: split_from.induct) simp_all

lemma split_from_cur:
  "split_from sep cur 0 s = (rev cur @ hd (split_from sep [] 0 s)) # tl (split_from sep [] 0 s)"
proof (induction s arbitrary: cur)
  case Nil
  then show ?case by simp
next
  case (Cons c cs)
  show ?case
  proof (cases "prefix sep (c # cs)")
    case True
    then show ?thesis by simp
  next
    case False
    then show ?thesis
      using Cons.IH [of "c # cur"] Cons.IH [of "[c]"] by simp
  qed
qed

lemma split_includes:
  assumes "sep \<noteq> []" and "str_includes s sep"
  shows "split s sep = before_first sep s # split (after_first sep s) sep"
  using assms(2)
proof (induction s)
  case Nil
  with assms(1) show ?case by simp
next
  case (Cons c cs)
  show ?case
  proof (cases "prefix sep (c # cs)")
    case True
    have "drop (length sep - 1) cs = drop (length sep) (c # cs)"
      using assms(1) by (cases sep) simp_all
    then have "split_from sep [] (length sep - 1) cs
               = split_from sep [] 0 (drop (length sep) (c # cs))"
      using split_from_skip [of sep "[]" "length sep - 1" cs] by simp
    then show ?thesis
      using True by (simp add: split_def)
  next
    case False
    with Cons.prems have inc: "str_includes cs sep" by simp
    have "split_from sep [c] 0 cs = (c # hd (split cs sep)) # tl (split cs sep)"
      using split_from_cur [of sep "[c]" cs] by (simp add: split_def)
    then show ?thesis
      using False Cons.IH [OF inc] by (simp add: split_def)
  qed
qed

lemma join_cons_char: "join ((c # p) # ps) sep = c # join (p # ps) sep"
  by (cases ps) simp_all

lemma join_split:
  assumes "sep \<noteq> []"
  shows "join (split s sep) sep = s"
proof (induction s rule: length_induct)
  case (1 s)
  show ?case
  proof (cases s)
    case Nil
    then show ?thesis by (simp add: split_def)
  next
    case (Cons c cs)
    show ?thesis
    proof (cases "prefix sep (c # cs)")
      case True
      let ?rest = "drop (length sep) (c # cs)"
      have shorter: "length ?rest < length s"
        using assms Cons by (cases sep) simp_all
      have inc: "str_includes s sep" using True Cons by simp
      have sp: "split s sep = [] # split ?rest sep"
        using split_includes [OF assms inc] True Cons by simp
      obtain p ps where pps: "split ?rest sep = p # ps"
        using split_from_nonempty [of sep "[]" 0 ?rest] by (cases "split ?rest sep") (simp_all add: split_def)
      have "join (split ?rest sep) sep = ?rest"
        using 1 shorter by blast
      then have "join (split s sep) sep = sep @ ?rest"
        using sp pps by simp
      also have "\<dots> = s"
        using True Cons by (metis append_eq_conv_conj prefix_def)
      finally show ?thesis .
    next
      case False
      have "split s sep = (c # hd (split cs sep)) # tl (split cs sep)"
        using False Cons split_from_cur [of sep "[c]" cs] by (simp add: split_def)
      moreover have "split cs sep \<noteq> []"
        by (simp add: split_def split_from_nonempty)
      moreover have "join (split cs sep) sep = cs"
        using 1 Cons by simp
      ultimately show ?thesis
        using Cons by (simp add: join_cons_char)
    qed
  qed
qed

lemma dash_split:
  assumes "sep \<noteq> []" and "str_includes s sep"
  shows "2 \<le> length (split s sep)"
    and "hd (split s sep) = before_first sep s"
    and "join (slice1 (split s sep)) sep = after_first sep s"
proof -
  have sp: "split s sep = before_first sep s # split (after_first sep s) sep"
    by (rule split_includes [OF assms])
  have ne: "split (after_first sep s) sep \<noteq> []"
    by (simp add: split_def split_from_nonempty)
  show "2 \<le> length (split s sep)"
    using sp ne by (cases "split (after_first sep s) sep") simp_all
  show "hd (split s sep) = before_first sep s" using sp by simp
  show "join (slice1 (split s sep)) sep = after_first sep s"
    using sp join_split [OF assms(1), of "after_first sep s"] by (simp add: slice1_def)
qed

text \<open>
  C6 (as amended). The parser trims the query first. For every query whose trimmed form
  contains " - ", the text before the first " - ", trimmed, is the artist, and all the
  text after the first " - ", later separators included, trimmed, is the title. No other
  rule is consulted: whether the query also contains ": " or the word "by" makes no
  difference.
\<close>

theorem parseQuery_dash_rule:
  assumes "str_includes (trim query) '' - ''"
  shows "parseQuery query =
           \<lparr> pq_artist = Some (trim (before_first '' - '' (trim query))),
             pq_title = Some (trim (after_first '' - '' (trim query))) \<rparr>"
proof -
  have ne: "'' - '' \<noteq> []" by simp
  note d = dash_split [OF ne assms]
  show ?thesis
    using assms d by (simp add: parseQuery_def Let_def)
qed

theorem parseQuery_dash_rule_witness:
  "str_includes (trim ''Sia - Chandelier - Live'') '' - ''
   \<and> parseQuery ''Sia - Chandelier - Live''
       = \<lparr> pq_artist = Some ''Sia'', pq_title = Some ''Chandelier - Live'' \<rparr>"
proof -
  have h: "str_includes (trim ''Sia - Chandelier - Live'') '' - ''"
    by code_simp
  have a: "trim (before_first '' - '' (trim ''Sia - Chandelier - Live'')) = ''Sia''"
    by code_simp
  have b: "trim (after_first '' - '' (trim ''Sia - Chandelier - Live'')) = ''Chandelier - Live''"
    by code_simp
  show ?thesis
    using parseQuery_dash_rule [OF h] h a b by simp
qed

text \<open>A query with both " - " and "by" is parsed by the dash rule.\<close>

lemma parseQuery_dash_before_by:
  "parseQuery ''Stand by Me - Ben E. King''
     = \<lparr> pq_artist = Some ''Stand by Me'', pq_title = Some ''Ben E. King'' \<rparr>"
  by code_simp

text \<open>
  C6 as stated fails for a query that contains " - " only at its end: the separator does
  not survive the trim, and the whole trimmed query becomes the title, with no artist.
\<close>

theorem parseQuery_dash_counterexample:
  "str_includes ''x - '' '' - ''
   \<and> parseQuery ''x - '' = \<lparr> pq_artist = None, pq_title = Some ''x -'' \<rparr>
   \<and> parseQuery ''x - '' \<noteq> \<lparr> pq_artist = Some (trim (before_first '' - '' ''x - '')),
                             pq_title = Some (trim (after_first '' - '' ''x - '')) \<rparr>"
  by code_simp

subsection \<open>Resolution\<close>



lemma no_match_empty:
  "str_match by_pattern True [] = None" "str_match parentheses_pattern False [] = None"
  by code_simp+

lemma parseQuery_blank:
  assumes "trim query = []"
  shows "parseQuery query = \<lparr> pq_artist = None, pq_title = Some [] \<rparr>"
  using assms by (simp add: parseQuery_def no_match_empty)

lemma extractSongInfo_shape:
  "\<exists>t a. extractSongInfo query = JObj [(''title'', JStr t), (''artist'', JStr a)]
         \<and> a \<noteq> [] \<and> (t = [] \<longleftrightarrow> trim query = [])
         \<and> (falsy_str (pq_artist (parseQuery query)) \<or> falsy_str (pq_title (parseQuery query))
              \<longrightarrow> a = ''Unknown Artist'' \<and> t = trim query)"
proof (cases "falsy_str (pq_artist (parseQuery query)) \<or> falsy_str (pq_title (parseQuery query))")
  case True
  then show ?thesis by (simp add: extractSongInfo_def)
next
  case False
  then obtain a t where at: "pq_artist (parseQuery query) = Some a" "a \<noteq> []"
      "pq_title (parseQuery query) = Some t" "t \<noteq> []"
    by (auto simp: falsy_str_def split: option.splits)
  have "trim query \<noteq> []"
    using at(1) parseQuery_blank [of query] by auto
  then show ?thesis
    using False at by (simp add: extractSongInfo_def)
qed

lemma searchSong_truthy: "truthy (searchSong env query)"
proof -
  obtain t a where "extractSongInfo query = JObj [(''title'', JStr t), (''artist'', JStr a)]"
    using extractSongInfo_shape [of query] by blast
  then show ?thesis
    by (simp add: searchSong_def Let_def)
qed







lemma searchGenius_no_token: "searchGenius env_no_sources query = JNull"
  by (simp add: searchGenius_def env_no_sources_def falsy_str_def)

lemma searchLyricsOvh_not_ok: "searchLyricsOvh env_no_sources query = JNull"
  by (simp add: searchLyricsOvh_def env_no_sources_def Let_def)




lemma parseQuery_Stay: "parseQuery ''Stay'' = \<lparr> pq_artist = None, pq_title = Some ''Stay'' \<rparr>"
  by code_simp

lemma trim_Stay: "trim ''Stay'' = ''Stay''"
  by code_simp



subsection \<open>Merging\<close>




lemma searchGenius_catalogue:
  "searchGenius (env_catalogue answer) query
     = JObj [(''title'', JStr ''Chandelier''), (''artist'', JStr ''Sia''), (''year'', JNum 2014),
             (''lyrics'', getGeniusLyrics ''https://genius.com/Sia-chandelier-lyrics'')]"
  by (simp add: searchGenius_def env_catalogue_def falsy_str_def Let_def js_str_def
        four_digits_def str_match_def match_at_def isDigit_def capture_def
        parseInt_def digit_value_def isSpace_def)

lemma getLastFmTrackInfo_catalogue:
  "getLastFmTrackInfo (env_catalogue answer) title artist
     = JObj [(''genre'', JStr ''pop''), (''year'', JNum 2015)]"
  by (simp add: getLastFmTrackInfo_def env_catalogue_def falsy_str_def Let_def js_str_def
        parseInt_def digit_value_def isSpace_def)

lemma searchSong_catalogue:
  "searchSong (env_catalogue answer) query
     = JObj [(''title'', JStr ''Chandelier''), (''artist'', JStr ''Sia''),
             (''genre'', JStr ''pop''), (''year'', JNum 2015),
             (''lyrics'', getGeniusLyrics ''https://genius.com/Sia-chandelier-lyrics'')]"
  by (simp add: searchSong_def searchGenius_catalogue getLastFmTrackInfo_catalogue Let_def
        own_props_def own_prop_def opt_prop_def js_or_def getGeniusLyrics_def)

lemma getSongDetails_catalogue:
  "getSongDetails (env_catalogue answer) title artist
     = JObj [(''title'', JStr ''Chandelier (Live)''), (''artist'', JStr ''Sia Furler''),
             (''year'', JNum 2016), (''genre'', JStr ''dance'')]"
  by (simp add: getSongDetails_def env_catalogue_def first_field_def Let_def js_str_def js_or_def
        substring0_def parseInt_def digit_value_def isSpace_def)

lemma finalSongInfo_catalogue:
  "finalSongInfo (env_catalogue answer) (searchSong (env_catalogue answer) query)
     = [(''title'', JStr ''Chandelier (Live)''), (''artist'', JStr ''Sia Furler''),
        (''genre'', JStr ''dance''), (''year'', JNum 2016),
        (''lyrics'', getGeniusLyrics ''https://genius.com/Sia-chandelier-lyrics'')]"
  by (simp add: finalSongInfo_def searchSong_catalogue getSongDetails_catalogue Let_def
        spread2_def assign_props_def own_props_def)











subsection \<open>Analysis and persistence\<close>



lemma calls_of_search:
  "snd (snd (search_and_store env unavailable now db userId query))
     = [analysis_call (finalSongInfo env (searchSong env (trim query)))]"
  unfolding search_and_store_def Let_def
  by (simp add: searchSong_truthy split: sum.split)

lemma post_songs_search_query:
  assumes "q \<noteq> []"
  shows "post_songs_search env unavailable now db userId (JObj [(''query'', JStr q)])
           = search_and_store env unavailable now db userId q"
  using assms by (simp add: post_songs_search_def own_prop_def)

lemma analysis_call_no_lyrics:
  assumes "\<not> truthy (own_prop final ''lyrics'')"
  shows "analysis_call final = GenerateSongMeaning (own_prop final ''title'')
           (own_prop final ''artist'') (own_prop final ''genre'') (own_prop final ''year'')"
  using assms by (simp add: analysis_call_def)

text \<open>
  C3. The handler chooses the variant by the truthiness of \<open>finalSongInfo.lyrics\<close>
  alone. At a resolved song whose lyrics field is the sentinel "Lyrics not found" (what
  \<open>searchSong\<close> writes when the Genius result has no lyrics) the lyrics-grounded
  variant is called with the sentinel as lyrics; and for every Genius hit the
  lyrics-grounded variant is called with the placeholder of \<open>getGeniusLyrics\<close>, which
  is not lyric text either. The claim requires the metadata-only variant in both cases.
\<close>

theorem sentinel_analysed_as_lyrics:
  "analysis_call [(''title'', JStr ''Stay''), (''artist'', JStr ''Unknown Artist''),
                  (''lyrics'', JStr ''Lyrics not found'')]
     = AnalyzeLyrics (JStr ''Stay'') (JStr ''Unknown Artist'') (JStr ''Lyrics not found'')
   \<and> snd (snd (post_songs_search (env_catalogue (Content None)) always_available 50 db0 ''u1''
                  (JObj [(''query'', JStr ''Sia - Chandelier'')])))
     = [AnalyzeLyrics (JStr ''Chandelier (Live)'') (JStr ''Sia Furler'')
          (JStr ''High-quality lyrics from Genius (lyrics extraction would require additional implementation)'')]"
proof -
  have a: "analysis_call [(''title'', JStr ''Stay''), (''artist'', JStr ''Unknown Artist''),
                  (''lyrics'', JStr ''Lyrics not found'')]
     = AnalyzeLyrics (JStr ''Stay'') (JStr ''Unknown Artist'') (JStr ''Lyrics not found'')"
    by (simp add: analysis_call_def own_prop_def)
  have b: "analysis_call (finalSongInfo (env_catalogue (Content None))
             (searchSong (env_catalogue (Content None)) (trim ''Sia - Chandelier'')))
     = AnalyzeLyrics (JStr ''Chandelier (Live)'') (JStr ''Sia Furler'')
          (JStr ''High-quality lyrics from Genius (lyrics extraction would require additional implementation)'')"
    by (simp add: finalSongInfo_catalogue analysis_call_def own_prop_def getGeniusLyrics_def)
  show ?thesis
    using a b by (simp add: post_songs_search_query calls_of_search)
qed

lemma analyzeLyrics_syntax_error:
  assumes "openai_json env songTitle artist lyrics = Content content"
      and "JSON_parse (content_or content ''{}'') = None"
  shows "analyzeLyrics env songTitle artist lyrics = Inl (FailedToAnalyzeLyrics SyntaxError)"
  using assms by (simp add: analyzeLyrics_def)

text \<open>
  C5 (as amended). When the content of the model's answer is not parseable as JSON,
  \<open>analyzeLyrics\<close> does not degrade to defaults: the \<open>SyntaxError\<close> of \<open>JSON.parse\<close> is
  caught and thrown again as "Failed to analyze lyrics: ...", and a search that called the
  lyrics-grounded variant is answered with status 500, "Failed to analyze song", with
  nothing stored. (Only an absent or empty content is replaced, by "{}".)
\<close>

theorem json_parse_failure_propagates:
  assumes "openai_json env songTitle artist lyrics = Content content"
      and "JSON_parse (content_or content ''{}'') = None"
  shows "analyzeLyrics env songTitle artist lyrics = Inl (FailedToAnalyzeLyrics SyntaxError)
       \<and> (\<forall>q. q \<noteq> []
              \<and> analysis_call (finalSongInfo env (searchSong env (trim q)))
                  = AnalyzeLyrics songTitle artist lyrics
            \<longrightarrow> post_songs_search env unavailable now db userId (JObj [(''query'', JStr q)])
                = ((500, Failure ''Failed to analyze song''
                           (Analysis (FailedToAnalyzeLyrics SyntaxError))),
                   db, [AnalyzeLyrics songTitle artist lyrics]))"
proof -
  have e: "analyzeLyrics env songTitle artist lyrics = Inl (FailedToAnalyzeLyrics SyntaxError)"
    by (rule analyzeLyrics_syntax_error [OF assms])
  have "\<And>q. q \<noteq> [] \<Longrightarrow>
          analysis_call (finalSongInfo env (searchSong env (trim q)))
            = AnalyzeLyrics songTitle artist lyrics \<Longrightarrow>
          post_songs_search env unavailable now db userId (JObj [(''query'', JStr q)])
            = ((500, Failure ''Failed to analyze song''
                       (Analysis (FailedToAnalyzeLyrics SyntaxError))),
               db, [AnalyzeLyrics songTitle artist lyrics])"
    using e
    by (simp add: post_songs_search_query search_and_store_def Let_def searchSong_truthy
          run_analysis_def)
  then show ?thesis using e by blast
qed

lemma not_json: "JSON_parse ''not json'' = None"
  by code_simp

lemma empty_object: "JSON_parse ''{}'' = Some (JObj [])"
  by code_simp

lemma meaning_true:
  "JSON_parse (''{'' @ quoted ''meaning'' @ '':true}'') = Some (JObj [(''meaning'', JBool True)])"
  by code_simp



lemma createSongAnalysis_effect:
  assumes "createSongAnalysis unavailable now db vals = Inr (a, db1)"
  shows "db_songAnalyses db1 = db_songAnalyses db @ [a]"
    and "db_searchHistory db1 = db_searchHistory db"
    and "db_favorites db1 = db_favorites db"
    and "db_users db1 = db_users db"
    and "sa_userId a = isa_userId vals"
    and "\<not> unavailable CreateSongAnalysis"
  using assms
  by (auto simp: createSongAnalysis_def Let_def split: if_splits)

lemma addToSearchHistory_effect:
  assumes "addToSearchHistory unavailable now db1 search = Inr (h, db2)"
  shows "db_searchHistory db2 = db_searchHistory db1 @ [h]"
    and "db_songAnalyses db2 = db_songAnalyses db1"
    and "sh_songAnalysisId h = ish_songAnalysisId search"
    and "sh_userId h = ish_userId search"
    and "sh_searchQuery h = ish_searchQuery search"
  using assms
  by (auto simp: addToSearchHistory_def Let_def split: if_splits)

lemma save_analysis_effect:
  assumes "save_analysis unavailable now db userId query final analysis = (res, db')"
  shows "(fst res = 500 \<and> db_searchHistory db' = db_searchHistory db
            \<and> (db' = db \<or> (\<exists>a. db_songAnalyses db' = db_songAnalyses db @ [a])))
       \<or> (\<exists>a h. res = (200, AnalysisBody a)
              \<and> db_songAnalyses db' = db_songAnalyses db @ [a]
              \<and> db_searchHistory db' = db_searchHistory db @ [h]
              \<and> sh_songAnalysisId h = Some (sa_id a)
              \<and> sh_userId h = userId \<and> sh_searchQuery h = query)"
proof (cases "insert_values final analysis userId")
  case None
  then show ?thesis using assms by (auto simp: save_analysis_def)
next
  case (Some vals)
  show ?thesis
  proof (cases "createSongAnalysis unavailable now db vals")
    case (Inl e)
    then show ?thesis using assms Some by (auto simp: save_analysis_def)
  next
    case (Inr r)
    obtain a db1 where r: "r = (a, db1)" by (cases r)
    note c = createSongAnalysis_effect [OF Inr [unfolded r]]
    let ?search = "\<lparr> ish_userId = userId, ish_searchQuery = query,
                     ish_songAnalysisId = Some (sa_id a) \<rparr>"
    show ?thesis
    proof (cases "addToSearchHistory unavailable now db1 ?search")
      case (Inl e)
      then have "res = (500, Failure ''Failed to analyze song'' (Storage e))" "db' = db1"
        using assms Some Inr r by (auto simp: save_analysis_def)
      then show ?thesis using c by auto
    next
      case (Inr r2)
      obtain h db2 where r2: "r2 = (h, db2)" by (cases r2)
      note s = addToSearchHistory_effect [OF Inr [unfolded r2]]
      have "res = (200, AnalysisBody a)" "db' = db2"
        using assms Some \<open>createSongAnalysis unavailable now db vals = Inr r\<close> r Inr r2
        by (auto simp: save_analysis_def)
      then show ?thesis using c s by auto
    qed
  qed
qed

lemma save_analysis_create_unavailable:
  assumes "unavailable CreateSongAnalysis"
  shows "fst (fst (save_analysis unavailable now db userId query final analysis)) = 500"
    and "snd (save_analysis unavailable now db userId query final analysis) = db"
  using assms
  by (auto simp: save_analysis_def createSongAnalysis_def split: option.splits)

lemma search_and_store_effect:
  assumes "search_and_store env unavailable now db userId query = (res, db', calls)"
  shows "(fst res \<noteq> 200 \<and> db_searchHistory db' = db_searchHistory db
            \<and> (db' = db \<or> (\<exists>a. db_songAnalyses db' = db_songAnalyses db @ [a])))
       \<or> (\<exists>a h. res = (200, AnalysisBody a)
              \<and> db_songAnalyses db' = db_songAnalyses db @ [a]
              \<and> db_searchHistory db' = db_searchHistory db @ [h]
              \<and> sh_songAnalysisId h = Some (sa_id a)
              \<and> sh_userId h = userId \<and> sh_searchQuery h = query)"
proof (cases "run_analysis env (analysis_call (finalSongInfo env (searchSong env (trim query))))")
  case (Inl e)
  then show ?thesis
    using assms by (auto simp: search_and_store_def Let_def searchSong_truthy)
next
  case (Inr analysis)
  let ?final = "finalSongInfo env (searchSong env (trim query))"
  have "save_analysis unavailable now db userId query ?final analysis = (res, db')"
    using assms Inr by (auto simp: search_and_store_def Let_def searchSong_truthy)
  from save_analysis_effect [OF this] show ?thesis by auto
qed

lemma search_and_store_create_unavailable:
  assumes "unavailable CreateSongAnalysis"
  shows "fst (fst (search_and_store env unavailable now db userId query)) = 500"
    and "fst (snd (search_and_store env unavailable now db userId query)) = db"
  using save_analysis_create_unavailable [where unavailable = unavailable, OF assms]
  by (auto simp: search_and_store_def Let_def searchSong_truthy split: sum.splits)

lemma post_songs_search_cases:
  "(\<exists>q. q \<noteq> [] \<and> post_songs_search env unavailable now db userId reqBody
                     = search_and_store env unavailable now db userId q)
   \<or> (fst (fst (post_songs_search env unavailable now db userId reqBody)) \<in> {400, 500}
       \<and> fst (snd (post_songs_search env unavailable now db userId reqBody)) = db)"
proof (cases "get_prop reqBody ''query''")
  case None
  then show ?thesis by (simp add: post_songs_search_def)
next
  case (Some query)
  show ?thesis
  proof (cases "\<exists>q. query = JStr q \<and> q \<noteq> []")
    case True
    then show ?thesis using Some by (auto simp: post_songs_search_def)
  next
    case False
    then have "post_songs_search env unavailable now db userId reqBody
          = ((400, Message ''Query is required''), db, [])"
      using Some by (cases query) (simp_all add: post_songs_search_def)
    then show ?thesis by simp
  qed
qed

lemma references_preserved:
  assumes "history_references_exist db"
      and "db_searchHistory db' = db_searchHistory db
           \<or> (\<exists>h a. db_searchHistory db' = db_searchHistory db @ [h]
                 \<and> sh_songAnalysisId h = Some (sa_id a) \<and> a \<in> set (db_songAnalyses db'))"
      and "set (db_songAnalyses db) \<subseteq> set (db_songAnalyses db')"
  shows "history_references_exist db'"
  using assms
  unfolding history_references_exist_def
  by (fastforce split: option.splits)

lemma post_songs_search_effect:
  assumes "post_songs_search env unavailable now db userId reqBody = (res, db', calls)"
  shows "(fst res \<noteq> 200 \<and> db_searchHistory db' = db_searchHistory db
            \<and> (db' = db \<or> (\<exists>a. db_songAnalyses db' = db_songAnalyses db @ [a])))
       \<or> (\<exists>a h. res = (200, AnalysisBody a)
              \<and> db_songAnalyses db' = db_songAnalyses db @ [a]
              \<and> db_searchHistory db' = db_searchHistory db @ [h]
              \<and> sh_songAnalysisId h = Some (sa_id a)
              \<and> sh_userId h = userId)"
proof -
  consider (run) q where "q \<noteq> []"
      "post_songs_search env unavailable now db userId reqBody
         = search_and_store env unavailable now db userId q"
    | (rejected) "fst res \<in> {400, 500}" "db' = db"
    using post_songs_search_cases [of env unavailable now db userId reqBody] assms by auto
  then show ?thesis
  proof cases
    case rejected
    then show ?thesis by auto
  next
    case run
    then have "search_and_store env unavailable now db userId q = (res, db', calls)"
      using assms by simp
    from search_and_store_effect [OF this] show ?thesis by auto
  qed
qed

lemma search_preserves_references:
  assumes "post_songs_search env unavailable now db userId reqBody = (res, db', calls)"
      and "history_references_exist db"
  shows "history_references_exist db'"
  using post_songs_search_effect [OF assms(1)]
proof (elim disjE conjE exE)
  assume "db_searchHistory db' = db_searchHistory db" "db' = db"
  then show ?thesis using assms(2) by simp
next
  fix a
  assume "db_searchHistory db' = db_searchHistory db"
         "db_songAnalyses db' = db_songAnalyses db @ [a]"
  then show ?thesis
    using references_preserved [OF assms(2), of db'] by auto
next
  fix a h
  assume "db_songAnalyses db' = db_songAnalyses db @ [a]"
         "db_searchHistory db' = db_searchHistory db @ [h]"
         "sh_songAnalysisId h = Some (sa_id a)"
  then show ?thesis
    using references_preserved [OF assms(2), of db'] by auto
qed

lemma post_favorites_frame:
  "db_searchHistory (snd (post_favorites unavailable now db userId reqBody)) = db_searchHistory db"
  "db_songAnalyses (snd (post_favorites unavailable now db userId reqBody)) = db_songAnalyses db"
  by (auto simp: post_favorites_def addToFavorites_def Let_def
        split: option.splits sum.splits if_splits)

lemma delete_favorites_frame:
  "db_searchHistory (snd (delete_favorites unavailable db userId param)) = db_searchHistory db"
  "db_songAnalyses (snd (delete_favorites unavailable db userId param)) = db_songAnalyses db"
  by (auto simp: delete_favorites_def removeFromFavorites_def
        split: jsval.splits sum.splits if_splits)

lemma delete_search_history_frame:
  "set (db_searchHistory (snd (delete_search_history unavailable db userId)))
     \<subseteq> set (db_searchHistory db)"
  "db_songAnalyses (snd (delete_search_history unavailable db userId)) = db_songAnalyses db"
  by (auto simp: delete_search_history_def clearUserSearchHistory_def)

lemma references_frame:
  assumes "history_references_exist db"
      and "set (db_searchHistory db') \<subseteq> set (db_searchHistory db)"
      and "db_songAnalyses db' = db_songAnalyses db"
  shows "history_references_exist db'"
  using assms unfolding history_references_exist_def
  by (fastforce split: option.splits)

lemma serve_preserves_references:
  assumes "history_references_exist db"
  shows "history_references_exist (serve db req)"
proof (cases req)
  case (SongsSearch env unavailable now userId reqBody)
  obtain res db' calls where
    r: "post_songs_search env unavailable now db userId reqBody = (res, db', calls)"
    by (cases "post_songs_search env unavailable now db userId reqBody") auto
  from search_preserves_references [OF r assms] show ?thesis
    using SongsSearch r by simp
next
  case (FavoritesAdd unavailable now userId reqBody)
  then show ?thesis
    using references_frame [OF assms] post_favorites_frame by simp
next
  case (FavoritesRemove unavailable userId param)
  then show ?thesis
    using references_frame [OF assms] delete_favorites_frame by simp
next
  case (SearchHistoryClear unavailable userId)
  then show ?thesis
    using references_frame [OF assms] delete_search_history_frame by simp
next
  case (Login unavailable userId)
  then show ?thesis
    using references_frame [OF assms, of "serve db req"]
    by (auto simp: upsertUser_def split: if_splits)
qed

lemma reachable_references:
  "reachable db \<Longrightarrow> history_references_exist db"
proof (induction rule: reachable.induct)
  case start
  then show ?case by (simp add: history_references_exist_def empty_database_def)
next
  case (request db req)
  then show ?case by (simp add: serve_preserves_references)
qed

text \<open>
  C9. In a search request the history entry is written only after the analysis record:
  whenever the request does not end with status 200 (the analysis could not be created,
  or an earlier step failed) the history table is unchanged; when the history table has
  changed, exactly one entry was appended, and it refers to the analysis record that the
  same request appended and returned. Hence no request makes a history entry refer to an
  analysis that does not exist: the property is preserved by the search, and it holds in
  every state the server can reach from empty tables.
\<close>

theorem history_only_after_analysis:
  assumes "post_songs_search env unavailable now db userId reqBody = (res, db', calls)"
  shows "(fst res \<noteq> 200 \<longrightarrow> db_searchHistory db' = db_searchHistory db)
       \<and> (unavailable CreateSongAnalysis \<longrightarrow> fst res \<noteq> 200 \<and> db' = db)
       \<and> (db_searchHistory db' \<noteq> db_searchHistory db \<longrightarrow>
            (\<exists>a h. res = (200, AnalysisBody a)
               \<and> db_songAnalyses db' = db_songAnalyses db @ [a]
               \<and> db_searchHistory db' = db_searchHistory db @ [h]
               \<and> sh_songAnalysisId h = Some (sa_id a)))
       \<and> (history_references_exist db \<longrightarrow> history_references_exist db')
       \<and> (reachable db \<longrightarrow> history_references_exist db \<and> history_references_exist db')"
proof -
  note e = post_songs_search_effect [OF assms]
  have h1: "fst res \<noteq> 200 \<longrightarrow> db_searchHistory db' = db_searchHistory db"
    using e by auto
  have u: "unavailable CreateSongAnalysis \<longrightarrow> fst res \<noteq> 200 \<and> db' = db"
  proof
    assume un: "unavailable CreateSongAnalysis"
    consider (run) q where "q \<noteq> []"
        "post_songs_search env unavailable now db userId reqBody
           = search_and_store env unavailable now db userId q"
      | (rejected) "fst res \<in> {400, 500}" "db' = db"
      using post_songs_search_cases [of env unavailable now db userId reqBody] assms by auto
    then show "fst res \<noteq> 200 \<and> db' = db"
    proof cases
      case rejected
      then show ?thesis by auto
    next
      case run
      then have s: "search_and_store env unavailable now db userId q = (res, db', calls)"
        using assms by simp
      show ?thesis
        using search_and_store_create_unavailable [of unavailable env now db userId q, OF un]
        unfolding s by simp
    qed
  qed
  have h2: "db_searchHistory db' \<noteq> db_searchHistory db \<longrightarrow>
            (\<exists>a h. res = (200, AnalysisBody a)
               \<and> db_songAnalyses db' = db_songAnalyses db @ [a]
               \<and> db_searchHistory db' = db_searchHistory db @ [h]
               \<and> sh_songAnalysisId h = Some (sa_id a))"
    using e by auto
  have h3: "history_references_exist db \<longrightarrow> history_references_exist db'"
    using search_preserves_references [OF assms] by blast
  have h4: "reachable db \<longrightarrow> history_references_exist db \<and> history_references_exist db'"
    using reachable_references [of db] h3 by blast
  show ?thesis using h1 h2 h3 h4 u by blast
qed

lemma extractedGenre_sample: "extractedGenre final ''Sad. Genre: Pop'' = JStr ''Pop''"
  by (simp add: extractedGenre_def genre_pattern_def str_match_def match_at_def lit_matches_def
        upper_def isSpace_def isLineTerminator_def capture_def trim_def)

lemma extractedYear_sample: "extractedYear final ''Sad. Genre: Pop'' = own_prop final ''year''"
  by (simp add: extractedYear_def year_pattern_def str_match_def match_at_def lit_matches_def
        upper_def isSpace_def isLineTerminator_def capture_def trim_def)

lemma cleanedAnalysis_sample: "cleanedAnalysis ''Sad. Genre: Pop'' = ''Sad.''"
  by (simp add: cleanedAnalysis_def replace_all_empty_def genre_pattern_def year_pattern_def
        match_at_def lit_matches_def upper_def isSpace_def isLineTerminator_def trim_def
        upt_rec [of _ "numeral _"] upt_rec [of _ "Suc _"])

lemma searchSong_Stay:
  "searchSong env_no_sources (trim ''Stay'')
     = JObj [(''title'', JStr ''Stay''), (''artist'', JStr ''Unknown Artist'')]"
  unfolding trim_Stay
  by (simp add: searchSong_def searchGenius_no_token searchLyricsOvh_not_ok
        extractSongInfo_def parseQuery_Stay trim_Stay falsy_str_def)

lemma finalSongInfo_Stay:
  "finalSongInfo env_no_sources (searchSong env_no_sources (trim ''Stay''))
     = [(''title'', JStr ''Stay''), (''artist'', JStr ''Unknown Artist'')]"
  unfolding finalSongInfo_def searchSong_Stay
  by (simp add: getSongDetails_def env_no_sources_def
        spread2_def assign_props_def own_props_def own_prop_def)

lemma analysis_call_Stay:
  "analysis_call [(''title'', JStr ''Stay''), (''artist'', JStr ''Unknown Artist'')]
     = GenerateSongMeaning (JStr ''Stay'') (JStr ''Unknown Artist'') JUndefined JUndefined"
  by (simp add: analysis_call_def own_prop_def)

lemma run_analysis_Stay:
  "run_analysis env_no_sources
     (GenerateSongMeaning (JStr ''Stay'') (JStr ''Unknown Artist'') JUndefined JUndefined)
     = Inr ''Sad. Genre: Pop''"
  by (simp add: run_analysis_def generateSongMeaning_def env_no_sources_def content_or_def)

lemma insert_values_Stay:
  "insert_values [(''title'', JStr ''Stay''), (''artist'', JStr ''Unknown Artist'')]
     ''Sad. Genre: Pop'' ''u1''
   = Some \<lparr> isa_title = ''Stay'', isa_artist = ''Unknown Artist'', isa_genre = Some ''Pop'',
            isa_yearReleased = None, isa_lyricsAnalysis = ''Sad.'', isa_userId = ''u1'' \<rparr>"
  by (simp add: insert_values_def extractedGenre_sample extractedYear_sample
        cleanedAnalysis_sample text_column_def nullable_text_def nullable_integer_def own_prop_def)

lemma search_Stay_stored:
  "post_songs_search env_no_sources always_available 50 db0 ''u1'' (JObj [(''query'', JStr ''Stay'')])
     = ((200, AnalysisBody stored_Stay),
        db0 \<lparr> db_songAnalyses := db_songAnalyses db0 @ [stored_Stay],
              db_searchHistory := [history_Stay],
              seq_songAnalyses := 4, seq_searchHistory := 2 \<rparr>,
        [GenerateSongMeaning (JStr ''Stay'') (JStr ''Unknown Artist'') JUndefined JUndefined])"
  by (simp add: post_songs_search_query search_and_store_def Let_def searchSong_truthy
        finalSongInfo_Stay analysis_call_Stay run_analysis_Stay save_analysis_def
        insert_values_Stay createSongAnalysis_def addToSearchHistory_def always_available_def
        db0_def int4_def stored_Stay_def history_Stay_def)

lemma search_Stay_create_fails:
  "post_songs_search env_no_sources create_unavailable 50 db0 ''u1'' (JObj [(''query'', JStr ''Stay'')])
     = ((500, Failure ''Failed to analyze song'' (Storage ConnectionError)), db0,
        [GenerateSongMeaning (JStr ''Stay'') (JStr ''Unknown Artist'') JUndefined JUndefined])"
  by (simp add: post_songs_search_query search_and_store_def Let_def searchSong_truthy
        finalSongInfo_Stay analysis_call_Stay run_analysis_Stay save_analysis_def
        insert_values_Stay createSongAnalysis_def create_unavailable_def)

theorem history_only_after_analysis_witness:
  "post_songs_search env_no_sources create_unavailable 50 db0 ''u1'' (JObj [(''query'', JStr ''Stay'')])
     = ((500, Failure ''Failed to analyze song'' (Storage ConnectionError)), db0,
        [GenerateSongMeaning (JStr ''Stay'') (JStr ''Unknown Artist'') JUndefined JUndefined])
   \<and> db_searchHistory db0 = []
   \<and> fst (post_songs_search env_no_sources always_available 50 db0 ''u1''
             (JObj [(''query'', JStr ''Stay'')]))
     = (200, AnalysisBody stored_Stay)
   \<and> db_searchHistory (fst (snd (post_songs_search env_no_sources always_available 50 db0 ''u1''
             (JObj [(''query'', JStr ''Stay'')]))))
     = [history_Stay]
   \<and> sh_songAnalysisId history_Stay = Some (sa_id stored_Stay)
   \<and> history_references_exist (fst (snd (post_songs_search env_no_sources always_available 50
             db0 ''u1'' (JObj [(''query'', JStr ''Stay'')]))))"
proof -
  have inv: "history_references_exist db0"
    by (simp add: history_references_exist_def db0_def)
  have "history_references_exist
          (db0 \<lparr> db_songAnalyses := db_songAnalyses db0 @ [stored_Stay],
                db_searchHistory := [history_Stay],
                seq_songAnalyses := 4, seq_searchHistory := 2 \<rparr>)"
    using history_only_after_analysis [OF search_Stay_stored] inv by blast
  moreover have "db_searchHistory db0 = []"
    using history_only_after_analysis [OF search_Stay_create_fails]
    by (simp add: db0_def)
  moreover have "sh_songAnalysisId history_Stay = Some (sa_id stored_Stay)"
    by (simp add: stored_Stay_def history_Stay_def)
  ultimately show ?thesis
    by (simp add: search_Stay_stored search_Stay_create_fails)
qed


theorem json_parse_failure_propagates_witness:
  "openai_json (env_catalogue (Content (Some ''not json'')))
       (JStr ''Chandelier (Live)'') (JStr ''Sia Furler'') (JStr ''la la'')
     = Content (Some ''not json'')
   \<and> JSON_parse (content_or (Some ''not json'') ''{}'') = None
   \<and> analyzeLyrics (env_catalogue (Content (Some ''not json'')))
        (JStr ''Chandelier (Live)'') (JStr ''Sia Furler'') (JStr ''la la'')
     = Inl (FailedToAnalyzeLyrics SyntaxError)"
proof -
  have c: "openai_json (env_catalogue (Content (Some ''not json'')))
       (JStr ''Chandelier (Live)'') (JStr ''Sia Furler'') (JStr ''la la'')
     = Content (Some ''not json'')"
    by (simp add: env_catalogue_def)
  have p: "JSON_parse (content_or (Some ''not json'') ''{}'') = None"
    by (simp add: content_or_def not_json)
  show ?thesis
    using json_parse_failure_propagates [OF c p] c p by simp
qed

text \<open>
  C5 as stated fails: the answer "not json" makes the search request fail with status 500.
\<close>

theorem json_parse_failure_counterexample:
  "JSON_parse ''not json'' = None
   \<and> post_songs_search (env_catalogue (Content (Some ''not json''))) always_available 50 db0 ''u1''
        (JObj [(''query'', JStr ''Sia - Chandelier'')])
     = ((500, Failure ''Failed to analyze song'' (Analysis (FailedToAnalyzeLyrics SyntaxError))),
        db0,
        [AnalyzeLyrics (JStr ''Chandelier (Live)'') (JStr ''Sia Furler'')
           (JStr ''High-quality lyrics from Genius (lyrics extraction would require additional implementation)'')])"
proof -
  let ?env = "env_catalogue (Content (Some ''not json''))"
  have c: "\<And>t a l. openai_json ?env t a l = Content (Some ''not json'')"
    by (simp add: env_catalogue_def)
  have p: "JSON_parse (content_or (Some ''not json'') ''{}'') = None"
    by (simp add: content_or_def not_json)
  have e: "\<And>t a l. analyzeLyrics ?env t a l = Inl (FailedToAnalyzeLyrics SyntaxError)"
    by (rule analyzeLyrics_syntax_error [OF c p])
  show ?thesis
    by (simp add: not_json post_songs_search_query search_and_store_def Let_def searchSong_truthy
          finalSongInfo_catalogue analysis_call_def own_prop_def getGeniusLyrics_def
          run_analysis_def e)
qed

text \<open>
  C7 (as amended). For the answer "{}" (and for an absent or empty content, which is
  replaced by "{}") the result is exactly the all-defaults record. For an answer that is
  a JSON object, \<open>meaning\<close>, \<open>mood\<close> and \<open>interpretation\<close> are replaced by their defaults
  when the key is missing or its value is falsy (\<open>null\<close>, \<open>false\<close>, \<open>0\<close>, the empty
  string) and are otherwise passed through unchanged, whatever their type; \<open>themes\<close>
  is replaced by the empty list when it is not an array and otherwise passed through.
\<close>

theorem analysis_default_filling:
  assumes "openai_json env songTitle artist lyrics = Content content"
  shows "(content_or content ''{}'' = ''{}'' \<longrightarrow>
            analyzeLyrics env songTitle artist lyrics = Inr all_defaults)
       \<and> (\<forall>kvs. JSON_parse (content_or content ''{}'') = Some (JObj kvs) \<longrightarrow>
            (\<exists>la. analyzeLyrics env songTitle artist lyrics = Inr la
               \<and> la_meaning la = (if truthy (own_prop kvs ''meaning'')
                                   then own_prop kvs ''meaning'' else la_meaning all_defaults)
               \<and> la_themes la = (case own_prop kvs ''themes'' of
                                    JArr xs \<Rightarrow> xs | _ \<Rightarrow> [])
               \<and> la_mood la = (if truthy (own_prop kvs ''mood'')
                                then own_prop kvs ''mood'' else la_mood all_defaults)
               \<and> la_interpretation la = (if truthy (own_prop kvs ''interpretation'')
                                          then own_prop kvs ''interpretation''
                                          else la_interpretation all_defaults)))"
proof (intro conjI impI allI)
  assume "content_or content ''{}'' = ''{}''"
  then show "analyzeLyrics env songTitle artist lyrics = Inr all_defaults"
    using assms
    by (simp add: analyzeLyrics_def empty_object own_prop_def js_or_def all_defaults_def)
next
  fix kvs
  assume "JSON_parse (content_or content ''{}'') = Some (JObj kvs)"
  then show "\<exists>la. analyzeLyrics env songTitle artist lyrics = Inr la
               \<and> la_meaning la = (if truthy (own_prop kvs ''meaning'')
                                   then own_prop kvs ''meaning'' else la_meaning all_defaults)
               \<and> la_themes la = (case own_prop kvs ''themes'' of
                                    JArr xs \<Rightarrow> xs | _ \<Rightarrow> [])
               \<and> la_mood la = (if truthy (own_prop kvs ''mood'')
                                then own_prop kvs ''mood'' else la_mood all_defaults)
               \<and> la_interpretation la = (if truthy (own_prop kvs ''interpretation'')
                                          then own_prop kvs ''interpretation''
                                          else la_interpretation all_defaults)"
    using assms
    by (simp add: analyzeLyrics_def js_or_def all_defaults_def)
qed

theorem analysis_default_filling_witness:
  "openai_json (env_catalogue (Content (Some ''{}'')))
       (JStr ''Chandelier (Live)'') (JStr ''Sia Furler'') (JStr ''la la'')
     = Content (Some ''{}'')
   \<and> analyzeLyrics (env_catalogue (Content (Some ''{}'')))
        (JStr ''Chandelier (Live)'') (JStr ''Sia Furler'') (JStr ''la la'')
     = Inr \<lparr> la_meaning = JStr ''Unable to analyze the meaning of this song.'',
             la_themes = [],
             la_mood = JStr ''Unknown'',
             la_interpretation = JStr ''No additional interpretation available.'' \<rparr>"
proof -
  have c: "openai_json (env_catalogue (Content (Some ''{}'')))
       (JStr ''Chandelier (Live)'') (JStr ''Sia Furler'') (JStr ''la la'')
     = Content (Some ''{}'')"
    by (simp add: env_catalogue_def)
  have d: "content_or (Some ''{}'') ''{}'' = ''{}''"
    by (simp add: content_or_def)
  show ?thesis
    using analysis_default_filling [OF c] c d by (simp add: all_defaults_def)
qed

text \<open>
  C7 as stated fails for a key that is malformed but truthy: for the answer
  \<open>{"meaning":true}\<close> the meaning of the result is the boolean \<open>true\<close>, not the default
  and not a string.
\<close>

theorem malformed_key_kept_counterexample:
  "JSON_parse (''{'' @ quoted ''meaning'' @ '':true}'') = Some (JObj [(''meaning'', JBool True)])
   \<and> analyzeLyrics (env_catalogue (Content (Some (''{'' @ quoted ''meaning'' @ '':true}''))))
        (JStr ''Chandelier (Live)'') (JStr ''Sia Furler'') (JStr ''la la'')
     = Inr \<lparr> la_meaning = JBool True,
             la_themes = [],
             la_mood = JStr ''Unknown'',
             la_interpretation = JStr ''No additional interpretation available.'' \<rparr>
   \<and> JBool True \<noteq> la_meaning all_defaults"
  using meaning_true
  by (simp add: analyzeLyrics_def env_catalogue_def content_or_def quoted_def own_prop_def
        js_or_def all_defaults_def)

subsection \<open>Uniqueness of favorites\<close>

lemma post_songs_search_favorites:
  "db_favorites (fst (snd (post_songs_search env unavailable now db userId reqBody)))
     = db_favorites db"
proof -
  have s: "\<And>q final analysis.
      db_favorites (snd (save_analysis unavailable now db userId q final analysis)) = db_favorites db"
    by (auto simp: save_analysis_def createSongAnalysis_def addToSearchHistory_def Let_def
          split: option.splits sum.splits if_splits)
  have t: "\<And>q. db_favorites (fst (snd (search_and_store env unavailable now db userId q)))
              = db_favorites db"
    using s by (auto simp: search_and_store_def Let_def split: sum.splits)
  show ?thesis
    using post_songs_search_cases [of env unavailable now db userId reqBody] t by auto
qed

lemma post_favorites_count:
  "favorite_count (snd (post_favorites unavailable now db userId reqBody)) u a
     \<le> max 1 (favorite_count db u a)"
  by (auto simp: post_favorites_def isFavorite_def addToFavorites_def favorite_count_def Let_def
        insertFavoriteSchema_parse_def own_prop_spread2 own_props_def
        split: option.splits sum.splits if_splits jsval.splits prod.splits)

lemma delete_favorites_count:
  "favorite_count (snd (delete_favorites unavailable db userId param)) u a
     \<le> favorite_count db u a"
proof -
  have "\<And>P Q xs. length (filter P (filter Q xs)) \<le> length (filter P (xs :: Favorite list))"
  proof -
    fix P Q and xs :: "Favorite list"
    have "filter P (filter Q xs) = filter Q (filter P xs)"
      by (simp add: conj_commute)
    then show "length (filter P (filter Q xs)) \<le> length (filter P xs)"
      by (metis length_filter_le)
  qed
  then show ?thesis
    by (auto simp: delete_favorites_def removeFromFavorites_def favorite_count_def
          split: jsval.splits sum.splits if_splits)
qed

lemma serve_preserves_unique:
  assumes "favorites_unique db"
  shows "favorites_unique (serve db req)"
proof (cases req)
  case (SongsSearch env unavailable now userId reqBody)
  then show ?thesis
    using assms post_songs_search_favorites [of env unavailable now db userId reqBody]
    by (simp add: favorites_unique_def favorite_count_def)
next
  case (FavoritesAdd unavailable now userId reqBody)
  show ?thesis
    unfolding favorites_unique_def
  proof (intro allI)
    fix u a
    have "favorite_count (serve db req) u a \<le> max 1 (favorite_count db u a)"
      using FavoritesAdd post_favorites_count by simp
    moreover have "favorite_count db u a \<le> 1"
      using assms by (simp add: favorites_unique_def)
    ultimately show "favorite_count (serve db req) u a \<le> 1" by simp
  qed
next
  case (FavoritesRemove unavailable userId param)
  show ?thesis
    unfolding favorites_unique_def
  proof (intro allI)
    fix u a
    have "favorite_count (serve db req) u a \<le> favorite_count db u a"
      using FavoritesRemove delete_favorites_count by simp
    moreover have "favorite_count db u a \<le> 1"
      using assms by (simp add: favorites_unique_def)
    ultimately show "favorite_count (serve db req) u a \<le> 1" by simp
  qed
next
  case (SearchHistoryClear unavailable userId)
  then show ?thesis
    using assms
    by (auto simp: favorites_unique_def favorite_count_def delete_search_history_def
          clearUserSearchHistory_def)
next
  case (Login unavailable userId)
  then show ?thesis
    using assms
    by (auto simp: favorites_unique_def favorite_count_def upsertUser_def)
qed

lemma reachable_unique: "reachable db \<Longrightarrow> favorites_unique db"
proof (induction rule: reachable.induct)
  case start
  then show ?case by (simp add: favorites_unique_def favorite_count_def empty_database_def)
next
  case (request db req)
  then show ?case by (simp add: serve_preserves_unique)
qed

text \<open>
  C8. A request to add a favorite for a (user, analysis) pair that is already a favorite
  is answered with status 400 and the message "Song is already in favorites", and it
  leaves the database as it was: no second row is created and the number of rows of the
  pair stays what it was, which is 1 in every state the server can reach from empty
  tables. The check needs the database: the hypothesis is that the \<open>isFavorite\<close> query
  can be run.
\<close>

theorem duplicate_favorite_rejected:
  assumes "own_prop (own_props reqBody) ''songAnalysisId'' = JNum (of_int sid)"
      and "0 < favorite_count db userId sid"
      and "\<not> unavailable IsFavorite"
  shows "post_favorites unavailable now db userId reqBody
           = ((400, Message ''Song is already in favorites''), db)
         \<and> favorite_count (snd (post_favorites unavailable now db userId reqBody)) userId sid
           = favorite_count db userId sid
         \<and> (reachable db \<longrightarrow>
              favorite_count (snd (post_favorites unavailable now db userId reqBody)) userId sid = 1)"
proof -
  have r: "post_favorites unavailable now db userId reqBody
           = ((400, Message ''Song is already in favorites''), db)"
    using assms by (simp add: post_favorites_def parse_favorite_request isFavorite_count)
  have "reachable db \<longrightarrow> favorite_count db userId sid = 1"
  proof
    assume "reachable db"
    then have "favorite_count db userId sid \<le> 1"
      using reachable_unique by (simp add: favorites_unique_def)
    then show "favorite_count db userId sid = 1" using assms(2) by simp
  qed
  then show ?thesis using r by simp
qed

lemma first_add_db0:
  "post_favorites always_available 100 db0 ''u1'' (favorite_request 1)
     = ((201, FavoriteBody \<lparr> fav_id = 1, fav_userId = ''u1'', fav_songAnalysisId = 1,
                             fav_createdAt = 100 \<rparr>),
        db0 \<lparr> db_favorites := [\<lparr> fav_id = 1, fav_userId = ''u1'', fav_songAnalysisId = 1,
                                 fav_createdAt = 100 \<rparr>],
              seq_favorites := 2 \<rparr>)"
  by (simp add: post_favorites_def parse_favorite_request [of _ 1] favorite_request_def
        own_props_def own_prop_def isFavorite_def addToFavorites_def always_available_def
        db0_def int4_def Let_def)

theorem duplicate_favorite_rejected_witness:
  "post_favorites always_available 101
       (snd (post_favorites always_available 100 db0 ''u1'' (favorite_request 1)))
       ''u1'' (favorite_request 1)
     = ((400, Message ''Song is already in favorites''),
        snd (post_favorites always_available 100 db0 ''u1'' (favorite_request 1)))
   \<and> favorite_count (snd (post_favorites always_available 100 db0 ''u1'' (favorite_request 1)))
        ''u1'' 1 = 1"
proof -
  let ?db1 = "snd (post_favorites always_available 100 db0 ''u1'' (favorite_request 1))"
  have body: "own_prop (own_props (favorite_request 1)) ''songAnalysisId'' = JNum (of_int 1)"
    by (simp add: favorite_request_def own_props_def own_prop_def)
  have count: "favorite_count ?db1 ''u1'' 1 = 1"
    unfolding first_add_db0 by (simp add: favorite_count_def)
  have avail: "\<not> always_available IsFavorite"
    by (simp add: always_available_def)
  from count have pos: "0 < favorite_count ?db1 ''u1'' 1" by simp
  show ?thesis
    using duplicate_favorite_rejected
            [where reqBody = "favorite_request 1" and sid = 1 and db = ?db1
               and userId = "''u1''" and unavailable = always_available and now = 101,
             OF body pos avail]
          count
    by simp
qed

end
